theory Spec2Isabelle
  imports Main "HOL-Library.Word"
begin

section \<open>Values shared by the SDK's modules\<close>

text \<open>
  A byte of a \<open>Buffer\<close> or \<open>Uint8Array\<close> is an 8-bit word. A JavaScript \<open>number\<close>
  that counts lamports or token base units is modelled as an \<open>int\<close>: the amounts are
  whole numbers, on which the arithmetic of \<open>number\<close> is exact up to \<open>2^53\<close>.
  A thrown \<open>Error\<close> is a value carrying its message, and a call that may throw returns
  \<open>error + 'a\<close>, with \<open>Inl\<close> for the throw (a rejected promise, for an async function).
\<close>

type_synonym byte = "8 word"

datatype error = Error string

subsection \<open>utils/constants\<close>

definition FETCH_UTXOS_GROUP_SIZE :: nat where
  "FETCH_UTXOS_GROUP_SIZE = 10000"

definition TRANSACT_IX_DISCRIMINATOR :: "byte list" where
  "TRANSACT_IX_DISCRIMINATOR = [217, 149, 130, 143, 221, 52, 252, 119]"

definition TRANSACT_SPL_IX_DISCRIMINATOR :: "byte list" where
  "TRANSACT_SPL_IX_DISCRIMINATOR = [154, 66, 244, 204, 78, 225, 163, 151]"

definition MERKLE_TREE_DEPTH :: nat where
  "MERKLE_TREE_DEPTH = 26"

definition LSK_FETCH_OFFSET :: string where
  "LSK_FETCH_OFFSET = ''fetch_offset''"

definition LSK_ENCRYPTED_OUTPUTS :: string where
  "LSK_ENCRYPTED_OUTPUTS = ''encrypted_outputs''"

subsection \<open>The cache and the rest of the world\<close>

text \<open>
  The module-level \<open>storage\<close> (a \<open>LocalStorage\<close>) is a map from keys to strings;
  \<open>removeItem\<close> deletes a key and does nothing when the key is absent. Everything else an
  operation can read or change (the ledger, the relayer, the signing service) is the
  component \<open>outside\<close> of the world, of a type the SDK does not look into.
\<close>

type_synonym Storage = "string \<rightharpoonup> string"

definition removeItem :: "string \<Rightarrow> Storage \<Rightarrow> Storage" where
  "removeItem key st = st(key := None)"

record 'w world =
  storage :: Storage
  outside :: 'w

section \<open>What the facade exchanges with its collaborators\<close>

text \<open>
  The operations behind the facade (\<open>deposit\<close>, \<open>depositV2\<close>, \<open>withdraw\<close>,
  \<open>getUtxos\<close>, \<open>depositSPL\<close>, \<open>depositSPLV2\<close>, \<open>withdrawSPL\<close>, \<open>getUtxosSPL\<close>),
  \<open>WasmFactory.getInstance\<close> and the constructor of \<open>PublicKey\<close> live in modules and
  libraries outside the facade: each method below takes the ones it calls as parameters.
  An async collaborator reads and changes the world and fulfils or rejects.
\<close>

type_synonym ('p, 'r, 'w) collaborator = "'p \<Rightarrow> 'w world \<Rightarrow> (error + 'r) \<times> 'w world"

datatype LightWasm = LightWasm

text \<open>The results, with the fields their declarations give them.\<close>

record DepositResult =
  tx :: string

record DepositV2Result =
  tx :: string
  depositLamports :: int
  feeLamports :: int
  feeRecipient :: string

record DepositSPLV2Result =
  tx :: string
  depositBaseUnits :: int
  feeBaseUnits :: int
  feeRecipient :: string

record WithdrawResult =
  isPartial :: bool
  tx :: string
  recipient :: string
  amount_in_lamports :: int
  fee_in_lamports :: int

record WithdrawSPLResult =
  isPartial :: bool
  tx :: string
  recipient :: string
  base_units :: int
  fee_base_units :: int

text \<open>
  A balance is a JavaScript object: its properties, each a name with a number. The objects
  are built by \<open>getBalanceFromUtxos\<close> and \<open>getBalanceFromUtxosSPL\<close>, which are
  outside the facade; the facade declares what it returns as
  \<open>Promise<{ lamports: number }>\<close> (\<open>getPrivateBalance\<close>) and as
  \<open>Promise<{ base_units: number; lamports: number }>\<close> (\<open>getPrivateBalanceSPL\<close>).
  An object is of such a type when it has the declared properties; it may have more.
\<close>

type_synonym js_object = "(string \<times> int) list"

definition property_names :: "js_object \<Rightarrow> string set" where
  "property_names obj = fst ` set obj"

definition of_type_lamports :: "js_object \<Rightarrow> bool" where
  "of_type_lamports obj = (''lamports'' \<in> property_names obj)"

definition of_type_base_units_lamports :: "js_object \<Rightarrow> bool" where
  "of_type_base_units_lamports obj =
     (''base_units'' \<in> property_names obj \<and> ''lamports'' \<in> property_names obj)"

text \<open>
  The argument objects of the inner operations. The connection, the encryption service,
  the transaction signer and the key base path are the same in every call of an instance
  and are left to the collaborator; \<open>storage\<close> is in the world.
\<close>

record 'pk DepositParams =
  lightWasm :: LightWasm
  amount_in_lamports :: int
  publicKey :: 'pk
  referrer :: "string option"

record 'pk DepositV2Params =
  lightWasm :: LightWasm
  totalLamports :: int
  feeLamports :: int
  feeRecipient :: 'pk
  publicKey :: 'pk
  referrer :: "string option"

record 'pk WithdrawParams =
  lightWasm :: LightWasm
  amount_in_lamports :: int
  publicKey :: 'pk
  recipient :: 'pk

record 'pk DepositSPLParams =
  lightWasm :: LightWasm
  base_units :: int
  publicKey :: 'pk
  mintAddress :: 'pk
  referrer :: "string option"

record 'pk DepositSPLV2Params =
  lightWasm :: LightWasm
  totalBaseUnits :: int
  feeBaseUnits :: int
  feeRecipient :: 'pk
  publicKey :: 'pk
  mintAddress :: 'pk
  referrer :: "string option"

record 'pk WithdrawSPLParams =
  lightWasm :: LightWasm
  base_units :: int
  publicKey :: 'pk
  mintAddress :: 'pk
  recipient :: 'pk

text \<open>A fee recipient is given as \<open>string | PublicKey\<close>.\<close>

datatype 'pk address_arg = AsString string | AsPublicKey 'pk

text \<open>
  A \<open>Keypair\<close> of the Solana library holds a public key and the 64 bytes of its secret
  key. The owner given to the constructor of \<open>PrivacyCash\<close> is
  \<open>string | number[] | Uint8Array | Keypair\<close>; the numbers of a \<open>number[]\<close> are taken
  as integers.
\<close>

record 'pk Keypair =
  publicKey :: 'pk
  secretKey :: "byte list"

datatype 'pk owner =
  OwnerKeypair "'pk Keypair" | OwnerString string | OwnerBytes "byte list"
  | OwnerNumbers "int list"

record 'pk PrivacyCash =
  keypair :: "'pk Keypair"
  publicKey :: 'pk
  isRuning :: bool
  status :: string

section \<open>PrivacyCashV2 (indexV2.ts)\<close>

text \<open>
  The fields of an instance that the methods read or write. \<open>isRunning\<close> is declared
  \<open>isRunning?: boolean = false\<close>, so it is an optional boolean that starts at
  \<open>Some False\<close>. The connection, the encryption service and the Privy wallet are fixed
  at creation and only handed on to the collaborators.
\<close>

record 'pk PrivacyCashV2 =
  publicKey :: 'pk
  isRunning :: "bool option"
  status :: string

text \<open>\<open>isOperationRunning\<close> is \<open>this.isRunning ?? false\<close>.\<close>

definition isOperationRunning :: "'pk PrivacyCashV2 \<Rightarrow> bool" where
  "isOperationRunning this = (case isRunning this of None \<Rightarrow> False | Some b \<Rightarrow> b)"

text \<open>
  The logger is a function of the module utils/logger that \<open>setLogger\<close> replaces: it
  is called with a level and a message, and it returns or throws. The one that the
  constructor installs (unless \<open>enableDebug\<close> is set) stores the message of level
  \<open>info\<close> in \<open>this.status\<close>; a logger is therefore given the status and returns
  the new one. What a logger prints or keeps elsewhere, and what \<open>console.log\<close> prints,
  is not modelled. \<open>logger.info\<close> calls the logger with the level \<open>info\<close>.
\<close>

type_synonym LoggerFn = "string \<Rightarrow> string \<Rightarrow> string \<Rightarrow> error + string"

definition constructor_logger :: LoggerFn where
  "constructor_logger level message st = Inr (if level = ''info'' then message else st)"

definition logger_info ::
  "LoggerFn \<Rightarrow> string \<Rightarrow> 'pk PrivacyCashV2 \<Rightarrow> error + 'pk PrivacyCashV2" where
  "logger_info logger message this =
     (case logger ''info'' message (status this) of
        Inl e \<Rightarrow> Inl e
      | Inr st \<Rightarrow> Inr (this\<lparr>status := st\<rparr>))"

text \<open>
  \<open>this.publicKey\<close> has the type \<open>PublicKey\<close>, an object, and every object is truthy:
  the guard \<open>if (!this.publicKey) return this\<close> of the two cache-clearing methods is kept
  in the model and never fires.
\<close>

definition truthy_object :: "'a \<Rightarrow> bool" where
  "truthy_object x = True"

subsection \<open>clearCache and clearCacheSPL\<close>

text \<open>
  \<open>localstorageKey\<close> (of getUtxos.js and of getUtxosSPL.js) and
  \<open>getAssociatedTokenAddress\<close> (of the SPL token library, which throws for an owner that
  is off the curve) are parameters. Both methods return \<open>this\<close>, unchanged.
\<close>

definition clearCache ::
  "('pk \<Rightarrow> string) \<Rightarrow> 'pk PrivacyCashV2 \<Rightarrow> 'w world
    \<Rightarrow> (error + 'pk PrivacyCashV2) \<times> 'w world" where
  "clearCache localstorageKey this w =
     (if \<not> truthy_object (publicKey this) then (Inr this, w)
      else
        let w1 = w\<lparr>storage := removeItem (LSK_FETCH_OFFSET @ localstorageKey (publicKey this))
                                 (storage w)\<rparr>;
            w2 = w1\<lparr>storage := removeItem (LSK_ENCRYPTED_OUTPUTS @ localstorageKey (publicKey this))
                                  (storage w1)\<rparr>
        in (Inr this, w2))"

definition clearCacheSPL ::
  "'pk \<Rightarrow> ('pk \<Rightarrow> 'pk \<Rightarrow> error + 'pk) \<Rightarrow> ('pk \<Rightarrow> string) \<Rightarrow> 'pk option
    \<Rightarrow> 'pk PrivacyCashV2 \<Rightarrow> 'w world \<Rightarrow> (error + 'pk PrivacyCashV2) \<times> 'w world" where
  "clearCacheSPL USDC_MINT getAssociatedTokenAddress localstorageKeySPL mintAddress this w =
     (let mint = (case mintAddress of None \<Rightarrow> USDC_MINT | Some m \<Rightarrow> m) in
      if \<not> truthy_object (publicKey this) then (Inr this, w)
      else
        case getAssociatedTokenAddress mint (publicKey this) of
          Inl e \<Rightarrow> (Inl e, w)
        | Inr publicKeyAta \<Rightarrow>
            let w1 = w\<lparr>storage := removeItem (LSK_FETCH_OFFSET @ localstorageKeySPL publicKeyAta)
                                     (storage w)\<rparr>;
                w2 = w1\<lparr>storage := removeItem
                                      (LSK_ENCRYPTED_OUTPUTS @ localstorageKeySPL publicKeyAta)
                                      (storage w1)\<rparr>
            in (Inr this, w2))"
  for mintAddress

subsection \<open>Native SOL\<close>

text \<open>
  A mutating operation has the shape \<open>this.isRunning = true; logger.info(...); try
  { ... } finally { this.isRunning = false; }\<close>: whatever the body of the \<open>try\<close>
  block returns or throws, the assignment of the \<open>finally\<close> block is the last thing
  done before the promise settles; a throw of the logger, before the \<open>try\<close> block,
  rejects the promise at once. The two balance queries call the logger first and set the
  flag after it. A method returns its outcome, the instance and the world.
\<close>

definition PrivacyCashV2_deposit ::
  "LoggerFn \<Rightarrow> (unit, LightWasm, 'w) collaborator
    \<Rightarrow> ('pk DepositParams, DepositResult, 'w) collaborator
    \<Rightarrow> int \<Rightarrow> string option \<Rightarrow> 'pk PrivacyCashV2 \<Rightarrow> 'w world
    \<Rightarrow> (error + DepositResult) \<times> 'pk PrivacyCashV2 \<times> 'w world" where
  "PrivacyCashV2_deposit logger getInstance deposit lamports referrer this w =
     (let this1 = this\<lparr>isRunning := Some True\<rparr> in
      case logger_info logger ''start depositing'' this1 of
        Inl e \<Rightarrow> (Inl e, this1, w)
      | Inr this2 \<Rightarrow>
          let (res, w') =
            (case getInstance () w of
               (Inl e, w1) \<Rightarrow> (Inl e, w1)
             | (Inr wasm, w1) \<Rightarrow>
                 deposit \<lparr>DepositParams.lightWasm = wasm,
                          DepositParams.amount_in_lamports = lamports,
                          DepositParams.publicKey = publicKey this2,
                          DepositParams.referrer = referrer\<rparr> w1)
          in (res, this2\<lparr>isRunning := Some False\<rparr>, w'))"
  for lamports referrer

definition PrivacyCashV2_depositV2 ::
  "LoggerFn \<Rightarrow> (string \<Rightarrow> error + 'pk) \<Rightarrow> (unit, LightWasm, 'w) collaborator
    \<Rightarrow> ('pk DepositV2Params, DepositV2Result, 'w) collaborator
    \<Rightarrow> int \<Rightarrow> int \<Rightarrow> 'pk address_arg \<Rightarrow> string option \<Rightarrow> 'pk PrivacyCashV2 \<Rightarrow> 'w world
    \<Rightarrow> (error + DepositV2Result) \<times> 'pk PrivacyCashV2 \<times> 'w world" where
  "PrivacyCashV2_depositV2 logger newPublicKey getInstance depositV2
       totalLamports feeLamports feeRecipient referrer this w =
     (let this1 = this\<lparr>isRunning := Some True\<rparr> in
      case logger_info logger ''start depositing with fee transfer'' this1 of
        Inl e \<Rightarrow> (Inl e, this1, w)
      | Inr this2 \<Rightarrow>
          let (res, w') =
            (case getInstance () w of
               (Inl e, w1) \<Rightarrow> (Inl e, w1)
             | (Inr wasm, w1) \<Rightarrow>
                 (case (case feeRecipient of
                          AsString s \<Rightarrow> newPublicKey s
                        | AsPublicKey k \<Rightarrow> Inr k) of
                    Inl e \<Rightarrow> (Inl e, w1)
                  | Inr feeRecipientPubkey \<Rightarrow>
                      depositV2 \<lparr>DepositV2Params.lightWasm = wasm,
                                 DepositV2Params.totalLamports = totalLamports,
                                 DepositV2Params.feeLamports = feeLamports,
                                 DepositV2Params.feeRecipient = feeRecipientPubkey,
                                 DepositV2Params.publicKey = publicKey this2,
                                 DepositV2Params.referrer = referrer\<rparr> w1))
          in (res, this2\<lparr>isRunning := Some False\<rparr>, w'))"
  for totalLamports feeLamports feeRecipient referrer

text \<open>
  \<open>recipientAddress ? new PublicKey(recipientAddress) : this.publicKey\<close> tests the
  argument for truthiness: \<open>undefined\<close> and the empty string are falsy, every other string
  is truthy.
\<close>

definition PrivacyCashV2_withdraw ::
  "LoggerFn \<Rightarrow> (string \<Rightarrow> error + 'pk) \<Rightarrow> (unit, LightWasm, 'w) collaborator
    \<Rightarrow> ('pk WithdrawParams, WithdrawResult, 'w) collaborator
    \<Rightarrow> int \<Rightarrow> string option \<Rightarrow> 'pk PrivacyCashV2 \<Rightarrow> 'w world
    \<Rightarrow> (error + WithdrawResult) \<times> 'pk PrivacyCashV2 \<times> 'w world" where
  "PrivacyCashV2_withdraw logger newPublicKey getInstance withdraw
       lamports recipientAddress this w =
     (let this1 = this\<lparr>isRunning := Some True\<rparr> in
      case logger_info logger ''start withdrawing'' this1 of
        Inl e \<Rightarrow> (Inl e, this1, w)
      | Inr this2 \<Rightarrow>
          let (res, w') =
            (case getInstance () w of
               (Inl e, w1) \<Rightarrow> (Inl e, w1)
             | (Inr wasm, w1) \<Rightarrow>
                 (case (case recipientAddress of
                          None \<Rightarrow> Inr (publicKey this2)
                        | Some s \<Rightarrow> if s = [] then Inr (publicKey this2) else newPublicKey s) of
                    Inl e \<Rightarrow> (Inl e, w1)
                  | Inr recipientKey \<Rightarrow>
                      withdraw \<lparr>WithdrawParams.lightWasm = wasm,
                                WithdrawParams.amount_in_lamports = lamports,
                                WithdrawParams.publicKey = publicKey this2,
                                WithdrawParams.recipient = recipientKey\<rparr> w1))
          in (res, this2\<lparr>isRunning := Some False\<rparr>, w'))"
  for lamports

definition PrivacyCashV2_getPrivateBalance ::
  "LoggerFn \<Rightarrow> ('pk, 'u list, 'w) collaborator \<Rightarrow> ('u list \<Rightarrow> js_object)
    \<Rightarrow> 'pk PrivacyCashV2 \<Rightarrow> 'w world
    \<Rightarrow> (error + js_object) \<times> 'pk PrivacyCashV2 \<times> 'w world" where
  "PrivacyCashV2_getPrivateBalance logger getUtxos getBalanceFromUtxos this w =
     (case logger_info logger ''getting private balance'' this of
        Inl e \<Rightarrow> (Inl e, this, w)
      | Inr this1 \<Rightarrow>
          let this2 = this1\<lparr>isRunning := Some True\<rparr>;
              (res, w') =
            (case getUtxos (publicKey this2) w of
               (Inl e, w1) \<Rightarrow> (Inl e, w1)
             | (Inr utxos, w1) \<Rightarrow> (Inr (getBalanceFromUtxos utxos), w1))
          in (res, this2\<lparr>isRunning := Some False\<rparr>, w'))"

subsection \<open>SPL tokens\<close>

text \<open>The default of every \<open>mintAddress\<close> parameter is the constant \<open>USDC_MINT\<close>.\<close>

definition PrivacyCashV2_depositSPL ::
  "LoggerFn \<Rightarrow> 'pk \<Rightarrow> (unit, LightWasm, 'w) collaborator
    \<Rightarrow> ('pk DepositSPLParams, DepositResult, 'w) collaborator
    \<Rightarrow> int \<Rightarrow> 'pk option \<Rightarrow> string option \<Rightarrow> 'pk PrivacyCashV2 \<Rightarrow> 'w world
    \<Rightarrow> (error + DepositResult) \<times> 'pk PrivacyCashV2 \<times> 'w world" where
  "PrivacyCashV2_depositSPL logger USDC_MINT getInstance depositSPL
       baseUnits mintAddress referrer this w =
     (let mint = (case mintAddress of None \<Rightarrow> USDC_MINT | Some m \<Rightarrow> m);
          this1 = this\<lparr>isRunning := Some True\<rparr> in
      case logger_info logger ''start depositing SPL token'' this1 of
        Inl e \<Rightarrow> (Inl e, this1, w)
      | Inr this2 \<Rightarrow>
          let (res, w') =
            (case getInstance () w of
               (Inl e, w1) \<Rightarrow> (Inl e, w1)
             | (Inr wasm, w1) \<Rightarrow>
                 depositSPL \<lparr>DepositSPLParams.lightWasm = wasm,
                             DepositSPLParams.base_units = baseUnits,
                             DepositSPLParams.publicKey = publicKey this2,
                             DepositSPLParams.mintAddress = mint,
                             DepositSPLParams.referrer = referrer\<rparr> w1)
          in (res, this2\<lparr>isRunning := Some False\<rparr>, w'))"
  for mintAddress referrer

definition PrivacyCashV2_depositSPLV2 ::
  "LoggerFn \<Rightarrow> 'pk \<Rightarrow> (string \<Rightarrow> error + 'pk) \<Rightarrow> (unit, LightWasm, 'w) collaborator
    \<Rightarrow> ('pk DepositSPLV2Params, DepositSPLV2Result, 'w) collaborator
    \<Rightarrow> int \<Rightarrow> int \<Rightarrow> 'pk address_arg \<Rightarrow> 'pk option \<Rightarrow> string option
    \<Rightarrow> 'pk PrivacyCashV2 \<Rightarrow> 'w world
    \<Rightarrow> (error + DepositSPLV2Result) \<times> 'pk PrivacyCashV2 \<times> 'w world" where
  "PrivacyCashV2_depositSPLV2 logger USDC_MINT newPublicKey getInstance depositSPLV2
       totalBaseUnits feeBaseUnits feeRecipient mintAddress referrer this w =
     (let mint = (case mintAddress of None \<Rightarrow> USDC_MINT | Some m \<Rightarrow> m);
          this1 = this\<lparr>isRunning := Some True\<rparr> in
      case logger_info logger ''start depositing SPL token with fee transfer'' this1 of
        Inl e \<Rightarrow> (Inl e, this1, w)
      | Inr this2 \<Rightarrow>
          let (res, w') =
            (case getInstance () w of
               (Inl e, w1) \<Rightarrow> (Inl e, w1)
             | (Inr wasm, w1) \<Rightarrow>
                 (case (case feeRecipient of
                          AsString s \<Rightarrow> newPublicKey s
                        | AsPublicKey k \<Rightarrow> Inr k) of
                    Inl e \<Rightarrow> (Inl e, w1)
                  | Inr feeRecipientPubkey \<Rightarrow>
                      depositSPLV2 \<lparr>DepositSPLV2Params.lightWasm = wasm,
                                    DepositSPLV2Params.totalBaseUnits = totalBaseUnits,
                                    DepositSPLV2Params.feeBaseUnits = feeBaseUnits,
                                    DepositSPLV2Params.feeRecipient = feeRecipientPubkey,
                                    DepositSPLV2Params.publicKey = publicKey this2,
                                    DepositSPLV2Params.mintAddress = mint,
                                    DepositSPLV2Params.referrer = referrer\<rparr> w1))
          in (res, this2\<lparr>isRunning := Some False\<rparr>, w'))"
  for totalBaseUnits feeBaseUnits feeRecipient mintAddress referrer

definition PrivacyCashV2_withdrawSPL ::
  "LoggerFn \<Rightarrow> 'pk \<Rightarrow> (string \<Rightarrow> error + 'pk) \<Rightarrow> (unit, LightWasm, 'w) collaborator
    \<Rightarrow> ('pk WithdrawSPLParams, WithdrawSPLResult, 'w) collaborator
    \<Rightarrow> int \<Rightarrow> 'pk option \<Rightarrow> string option \<Rightarrow> 'pk PrivacyCashV2 \<Rightarrow> 'w world
    \<Rightarrow> (error + WithdrawSPLResult) \<times> 'pk PrivacyCashV2 \<times> 'w world" where
  "PrivacyCashV2_withdrawSPL logger USDC_MINT newPublicKey getInstance withdrawSPL
       baseUnits mintAddress recipientAddress this w =
     (let mint = (case mintAddress of None \<Rightarrow> USDC_MINT | Some m \<Rightarrow> m);
          this1 = this\<lparr>isRunning := Some True\<rparr> in
      case logger_info logger ''start withdrawing SPL token'' this1 of
        Inl e \<Rightarrow> (Inl e, this1, w)
      | Inr this2 \<Rightarrow>
          let (res, w') =
            (case getInstance () w of
               (Inl e, w1) \<Rightarrow> (Inl e, w1)
             | (Inr wasm, w1) \<Rightarrow>
                 (case (case recipientAddress of
                          None \<Rightarrow> Inr (publicKey this2)
                        | Some s \<Rightarrow> if s = [] then Inr (publicKey this2) else newPublicKey s) of
                    Inl e \<Rightarrow> (Inl e, w1)
                  | Inr recipientKey \<Rightarrow>
                      withdrawSPL \<lparr>WithdrawSPLParams.lightWasm = wasm,
                                   WithdrawSPLParams.base_units = baseUnits,
                                   WithdrawSPLParams.publicKey = publicKey this2,
                                   WithdrawSPLParams.mintAddress = mint,
                                   WithdrawSPLParams.recipient = recipientKey\<rparr> w1))
          in (res, this2\<lparr>isRunning := Some False\<rparr>, w'))"
  for mintAddress

definition PrivacyCashV2_getPrivateBalanceSPL ::
  "LoggerFn \<Rightarrow> 'pk \<Rightarrow> ('pk \<times> 'pk, 'u list, 'w) collaborator \<Rightarrow> ('u list \<Rightarrow> js_object)
    \<Rightarrow> 'pk option \<Rightarrow> 'pk PrivacyCashV2 \<Rightarrow> 'w world
    \<Rightarrow> (error + js_object) \<times> 'pk PrivacyCashV2 \<times> 'w world" where
  "PrivacyCashV2_getPrivateBalanceSPL logger USDC_MINT getUtxosSPL getBalanceFromUtxosSPL
       mintAddress this w =
     (let mint = (case mintAddress of None \<Rightarrow> USDC_MINT | Some m \<Rightarrow> m) in
      case logger_info logger ''getting private SPL balance'' this of
        Inl e \<Rightarrow> (Inl e, this, w)
      | Inr this1 \<Rightarrow>
          let this2 = this1\<lparr>isRunning := Some True\<rparr>;
              (res, w') =
            (case getUtxosSPL (publicKey this2, mint) w of
               (Inl e, w1) \<Rightarrow> (Inl e, w1)
             | (Inr utxos, w1) \<Rightarrow> (Inr (getBalanceFromUtxosSPL utxos), w1))
          in (res, this2\<lparr>isRunning := Some False\<rparr>, w'))"
  for mintAddress

subsection \<open>Operations in flight\<close>

text \<open>
  An async method runs until its first \<open>await\<close> when it is called, and the rest of its
  body runs later, when what it awaits has settled: between the two, other calls can be
  made on the same instance. The runtime below keeps the client and the list of calls
  that were entered and have not settled. \<open>enter\<close> is the part of a method before its
  \<open>try\<close> block and \<open>leave\<close> is its \<open>finally\<close> block; no method reads
  \<open>isRunning\<close> on the way. A call whose logger throws rejects at once and is never in
  flight.
\<close>

datatype operation =
  Deposit | DepositV2 | Withdraw | GetPrivateBalance
  | DepositSPL | DepositSPLV2 | WithdrawSPL | GetPrivateBalanceSPL

fun is_mutating :: "operation \<Rightarrow> bool" where
  "is_mutating GetPrivateBalance = False"
| "is_mutating GetPrivateBalanceSPL = False"
| "is_mutating _ = True"

fun start_message :: "operation \<Rightarrow> string" where
  "start_message Deposit = ''start depositing''"
| "start_message DepositV2 = ''start depositing with fee transfer''"
| "start_message Withdraw = ''start withdrawing''"
| "start_message GetPrivateBalance = ''getting private balance''"
| "start_message DepositSPL = ''start depositing SPL token''"
| "start_message DepositSPLV2 = ''start depositing SPL token with fee transfer''"
| "start_message WithdrawSPL = ''start withdrawing SPL token''"
| "start_message GetPrivateBalanceSPL = ''getting private SPL balance''"

definition enter ::
  "LoggerFn \<Rightarrow> operation \<Rightarrow> 'pk PrivacyCashV2 \<Rightarrow> (error + unit) \<times> 'pk PrivacyCashV2" where
  "enter logger op this =
     (if is_mutating op
      then
        let this1 = this\<lparr>isRunning := Some True\<rparr> in
        case logger_info logger (start_message op) this1 of
          Inl e \<Rightarrow> (Inl e, this1)
        | Inr this2 \<Rightarrow> (Inr (), this2)
      else
        case logger_info logger (start_message op) this of
          Inl e \<Rightarrow> (Inl e, this)
        | Inr this1 \<Rightarrow> (Inr (), this1\<lparr>isRunning := Some True\<rparr>))"

definition leave :: "'pk PrivacyCashV2 \<Rightarrow> 'pk PrivacyCashV2" where
  "leave this = this\<lparr>isRunning := Some False\<rparr>"

record 'pk runtime =
  client :: "'pk PrivacyCashV2"
  in_flight :: "operation list"

definition call :: "LoggerFn \<Rightarrow> operation \<Rightarrow> 'pk runtime \<Rightarrow> 'pk runtime" where
  "call logger op rt =
     (case enter logger op (client rt) of
        (Inl e, c) \<Rightarrow> rt\<lparr>client := c\<rparr>
      | (Inr u, c) \<Rightarrow> rt\<lparr>client := c, in_flight := in_flight rt @ [op]\<rparr>)"

definition settle :: "nat \<Rightarrow> 'pk runtime \<Rightarrow> 'pk runtime" where
  "settle i rt =
     (if i < length (in_flight rt)
      then rt\<lparr>client := leave (client rt),
              in_flight := take i (in_flight rt) @ drop (Suc i) (in_flight rt)\<rparr>
      else rt)"

definition mutations_in_flight :: "'pk runtime \<Rightarrow> operation list" where
  "mutations_in_flight rt = filter is_mutating (in_flight rt)"

section \<open>PrivacyCash (index.js)\<close>

text \<open>
  \<open>bs58.decode\<close> and \<open>Keypair.fromSecretKey\<close> are library functions and parameters
  here; both can throw. \<open>Uint8Array.from\<close> takes each number modulo 256.
  \<open>getSolanaKeypair\<close> returns \<open>null\<close> (\<open>None\<close>) from its length check and from its
  \<open>catch\<close>, which covers the whole body.
\<close>

definition Uint8Array_from :: "int list \<Rightarrow> byte list" where
  "Uint8Array_from ns = map word_of_int ns"

text \<open>The end of the \<open>try\<close> block: the length check and the call of the library.\<close>

definition keypair_of_keyArray ::
  "(byte list \<Rightarrow> error + 'pk Keypair) \<Rightarrow> byte list \<Rightarrow> 'pk Keypair option" where
  "keypair_of_keyArray fromSecretKey keyArray =
     (if length keyArray \<noteq> 32 \<and> length keyArray \<noteq> 64 then None
      else (case fromSecretKey keyArray of Inl e \<Rightarrow> None | Inr k \<Rightarrow> Some k))"

fun getSolanaKeypair ::
  "(string \<Rightarrow> error + byte list) \<Rightarrow> (byte list \<Rightarrow> error + 'pk Keypair) \<Rightarrow> 'pk owner
    \<Rightarrow> 'pk Keypair option" where
  "getSolanaKeypair bs58_decode fromSecretKey (OwnerKeypair k) = Some k"
| "getSolanaKeypair bs58_decode fromSecretKey (OwnerString s) =
     (case bs58_decode s of
        Inl e \<Rightarrow> None
      | Inr keyArray \<Rightarrow> keypair_of_keyArray fromSecretKey keyArray)"
| "getSolanaKeypair bs58_decode fromSecretKey (OwnerBytes b) =
     keypair_of_keyArray fromSecretKey b"
| "getSolanaKeypair bs58_decode fromSecretKey (OwnerNumbers ns) =
     keypair_of_keyArray fromSecretKey (Uint8Array_from ns)"

text \<open>
  The constructor, up to the assignment of \<open>this.keypair\<close> and \<open>this.publicKey\<close>; the
  connection, the encryption service and the status renderer that it sets up afterwards do
  not touch the two fields.
\<close>

definition owner_error :: error where
  \<open>owner_error = Error ''param "owner" is not a valid Private Key or Keypair''\<close>

definition PrivacyCash_constructor ::
  "(string \<Rightarrow> error + byte list) \<Rightarrow> (byte list \<Rightarrow> error + 'pk Keypair) \<Rightarrow> 'pk owner
    \<Rightarrow> error + 'pk PrivacyCash" where
  "PrivacyCash_constructor bs58_decode fromSecretKey owner =
     (case getSolanaKeypair bs58_decode fromSecretKey owner of
        None \<Rightarrow> Inl owner_error
      | Some k \<Rightarrow>
          Inr \<lparr>PrivacyCash.keypair = k, PrivacyCash.publicKey = Keypair.publicKey k,
               PrivacyCash.isRuning = False, PrivacyCash.status = []\<rparr>)"

text \<open>
  \<open>withdraw\<close> of this class has no \<open>try\<close>: a throw leaves \<open>isRuning\<close> as it is.
  The logger is the one of the same module, called after the flag is set.
\<close>

definition PrivacyCash_withdraw ::
  "LoggerFn \<Rightarrow> (string \<Rightarrow> error + 'pk) \<Rightarrow> (unit, LightWasm, 'w) collaborator
    \<Rightarrow> ('pk WithdrawParams, WithdrawResult, 'w) collaborator
    \<Rightarrow> int \<Rightarrow> string option \<Rightarrow> 'pk PrivacyCash \<Rightarrow> 'w world
    \<Rightarrow> (error + WithdrawResult) \<times> 'pk PrivacyCash \<times> 'w world" where
  "PrivacyCash_withdraw logger newPublicKey getInstance withdraw lamports recipientAddress this w =
     (let this1 = this\<lparr>PrivacyCash.isRuning := True\<rparr> in
      case logger ''info'' ''start withdrawing'' (PrivacyCash.status this1) of
        Inl e \<Rightarrow> (Inl e, this1, w)
      | Inr st \<Rightarrow>
          let this2 = this1\<lparr>PrivacyCash.status := st\<rparr>
          in case getInstance () w of
               (Inl e, w1) \<Rightarrow> (Inl e, this2, w1)
             | (Inr wasm, w1) \<Rightarrow>
                 (case (case recipientAddress of
                          None \<Rightarrow> Inr (PrivacyCash.publicKey this2)
                        | Some s \<Rightarrow>
                            if s = [] then Inr (PrivacyCash.publicKey this2)
                            else newPublicKey s) of
                    Inl e \<Rightarrow> (Inl e, this2, w1)
                  | Inr recipientKey \<Rightarrow>
                      (case withdraw \<lparr>WithdrawParams.lightWasm = wasm,
                                      WithdrawParams.amount_in_lamports = lamports,
                                      WithdrawParams.publicKey = PrivacyCash.publicKey this2,
                                      WithdrawParams.recipient = recipientKey\<rparr> w1 of
                         (Inl e, w2) \<Rightarrow> (Inl e, this2, w2)
                       | (Inr res, w2) \<Rightarrow>
                           (Inr res, this2\<lparr>PrivacyCash.isRuning := False\<rparr>, w2))))"
  for lamports

section \<open>The libraries behind the parameters\<close>

text \<open>
  The theorems about the facade hold for every behaviour of the library functions. For
  closed instances the functions are given here as the libraries define them: \<open>bs58\<close>
  decodes the Bitcoin alphabet (each leading \<open>1\<close> is a zero byte, the rest is a number
  written in base 58 and returned big-endian, any other character throws); a
  \<open>PublicKey\<close> made from a string is its 32 decoded bytes, and any other decoded length
  throws; \<open>Keypair.fromSecretKey\<close> throws unless it is given 64 bytes whose second half
  is the public key of the first half.
\<close>

definition ALPHABET :: string where
  "ALPHABET = ''123456789ABCDEFGHJKLMNPQRSTUVWXYZabcdefghijkmnopqrstuvwxyz''"

fun index_of :: "'a \<Rightarrow> 'a list \<Rightarrow> nat option" where
  "index_of x [] = None"
| "index_of x (y # ys) = (if x = y then Some 0 else map_option Suc (index_of x ys))"

fun base58_value :: "int \<Rightarrow> string \<Rightarrow> int option" where
  "base58_value acc [] = Some acc"
| "base58_value acc (c # cs) =
     (case index_of c ALPHABET of
        None \<Rightarrow> None
      | Some d \<Rightarrow> base58_value (acc * 58 + int d) cs)"

function big_endian :: "int \<Rightarrow> byte list \<Rightarrow> byte list" where
  "big_endian n acc =
     (if n \<le> 0 then acc else big_endian (n div 256) (word_of_int (n mod 256) # acc))"
  by pat_completeness auto
termination
  by (relation "measure (\<lambda>(n, acc). nat n)") auto

function base58_digits :: "int \<Rightarrow> string \<Rightarrow> string" where
  "base58_digits n acc =
     (if n \<le> 0 then acc else base58_digits (n div 58) (ALPHABET ! nat (n mod 58) # acc))"
  by pat_completeness auto
termination
  by (relation "measure (\<lambda>(n, acc). nat n)") auto

definition bs58_decode :: "string \<Rightarrow> error + byte list" where
  "bs58_decode source =
     (case base58_value 0 (dropWhile (\<lambda>c. c = CHR ''1'') source) of
        None \<Rightarrow> Inl (Error ''Non-base58 character'')
      | Some n \<Rightarrow>
          Inr (replicate (length (takeWhile (\<lambda>c. c = CHR ''1'') source)) 0 @ big_endian n []))"

definition bs58_encode :: "byte list \<Rightarrow> string" where
  "bs58_encode source =
     replicate (length (takeWhile (\<lambda>b. b = 0) source)) (CHR ''1'')
     @ base58_digits (foldl (\<lambda>acc b. acc * 256 + uint b) 0 source) []"

datatype PublicKey = PublicKey (toBytes: "byte list")

definition new_PublicKey :: "string \<Rightarrow> error + PublicKey" where
  "new_PublicKey s =
     (case bs58_decode s of
        Inl e \<Rightarrow> Inl e
      | Inr decoded \<Rightarrow>
          if length decoded \<noteq> 32 then Inl (Error ''Invalid public key input'')
          else Inr (PublicKey decoded))"

definition toBase58 :: "PublicKey \<Rightarrow> string" where
  "toBase58 k = bs58_encode (toBytes k)"

text \<open>
  The derivation of an ed25519 public key from its seed is the parameter \<open>getPublicKey\<close>.
\<close>

definition Keypair_fromSecretKey ::
  "(byte list \<Rightarrow> byte list) \<Rightarrow> byte list \<Rightarrow> error + PublicKey Keypair" where
  "Keypair_fromSecretKey getPublicKey sk =
     (if length sk \<noteq> 64 then Inl (Error ''bad secret key size'')
      else if drop 32 sk \<noteq> getPublicKey (take 32 sk)
        then Inl (Error ''provided secretKey is invalid'')
        else Inr \<lparr>Keypair.publicKey = PublicKey (drop 32 sk), Keypair.secretKey = sk\<rparr>)"

text \<open>
  \<open>USDC_MINT\<close> and \<open>FEE_RECIPIENT\<close> of utils/constants are the public keys made from
  two address strings; the bytes below are the decoded addresses.
\<close>

definition USDC_MINT_address :: string where
  "USDC_MINT_address = ''EPjFWdd5AufqSSqeM2qN1xzybapC8G4wEGGkZwyTDt1v''"

definition USDC_MINT :: PublicKey where
  "USDC_MINT = PublicKey
     [198, 250, 122, 243, 190, 219, 173, 58, 61, 101, 243, 106, 171, 201, 116, 49,
      177, 187, 228, 194, 210, 246, 224, 228, 124, 166, 2, 3, 69, 47, 93, 97]"

definition FEE_RECIPIENT_address :: string where
  "FEE_RECIPIENT_address = ''AWexibGxNFKTa1b5R5MN4PJr9HWnWRwf8EW9g8cLx3dM''"

definition FEE_RECIPIENT :: PublicKey where
  "FEE_RECIPIENT = PublicKey
     [141, 81, 242, 178, 60, 74, 227, 220, 34, 179, 65, 164, 202, 87, 196, 6,
      95, 197, 226, 113, 100, 8, 121, 155, 31, 86, 10, 150, 112, 223, 249, 108]"

section \<open>The operations behind the facade\<close>

text \<open>
  Modelled from the spec: \<open>depositV2\<close> of deposit.js, of which only the declaration is
  among the sources. The spec gives the result of a deposit with fee as
  \<open>{tx, depositAmount, feeAmount, feeRecipient}\<close>, and the declaration says ``the actual
  deposit will be totalLamports - feeLamports''. Scanning, proving and submitting are the
  collaborator \<open>submit\<close>, which yields the signature of the transaction or fails.
\<close>

definition depositV2 ::
  "('pk \<Rightarrow> string) \<Rightarrow> ('pk DepositV2Params, string, 'w) collaborator
    \<Rightarrow> ('pk DepositV2Params, DepositV2Result, 'w) collaborator" where
  "depositV2 address submit p w =
     (case submit p w of
        (Inl e, w1) \<Rightarrow> (Inl e, w1)
      | (Inr signature, w1) \<Rightarrow>
          (Inr \<lparr>DepositV2Result.tx = signature,
                DepositV2Result.depositLamports =
                  DepositV2Params.totalLamports p - DepositV2Params.feeLamports p,
                DepositV2Result.feeLamports = DepositV2Params.feeLamports p,
                DepositV2Result.feeRecipient = address (DepositV2Params.feeRecipient p)\<rparr>,
           w1))"

text \<open>
  Modelled from the spec: \<open>depositSPLV2\<close> of depositSPL.js, of which only the declaration
  is among the sources; as \<open>depositV2\<close>, in base units of the token (``the actual deposit
  will be totalBaseUnits - feeBaseUnits'').
\<close>

definition depositSPLV2 ::
  "('pk \<Rightarrow> string) \<Rightarrow> ('pk DepositSPLV2Params, string, 'w) collaborator
    \<Rightarrow> ('pk DepositSPLV2Params, DepositSPLV2Result, 'w) collaborator" where
  "depositSPLV2 address submit p w =
     (case submit p w of
        (Inl e, w1) \<Rightarrow> (Inl e, w1)
      | (Inr signature, w1) \<Rightarrow>
          (Inr \<lparr>DepositSPLV2Result.tx = signature,
                DepositSPLV2Result.depositBaseUnits =
                  DepositSPLV2Params.totalBaseUnits p - DepositSPLV2Params.feeBaseUnits p,
                DepositSPLV2Result.feeBaseUnits = DepositSPLV2Params.feeBaseUnits p,
                DepositSPLV2Result.feeRecipient = address (DepositSPLV2Params.feeRecipient p)\<rparr>,
           w1))"

section \<open>Collaborators for closed instances\<close>

text \<open>
  A world whose outside is the list of the requests that reached the ledger, by the
  address of the account that pays or receives; collaborators that always succeed and add
  their request to it; helpers that stand in for \<open>getBalanceFromUtxos\<close> and
  \<open>getBalanceFromUtxosSPL\<close> and build objects of the declared types; a logger that
  throws, as a caller can install one with \<open>setLogger\<close>; a client whose key has the
  address
  \<open>11111111111111111111111111111112\<close>; and, for the derivation of an associated token
  address (a hash of owner, token program and mint), a function that stands in for it.
\<close>

definition getInstance_ready :: "(unit, LightWasm, 'w) collaborator" where
  "getInstance_ready u w = (Inr LightWasm, w)"

definition submit_accepted ::
  "('p \<Rightarrow> string) \<Rightarrow> ('p, string, string list) collaborator" where
  "submit_accepted describe p w =
     (Inr ''signature'', w\<lparr>outside := outside w @ [describe p]\<rparr>)"

definition withdraw_accepted ::
  "(PublicKey WithdrawParams, WithdrawResult, string list) collaborator" where
  "withdraw_accepted p w =
     (Inr \<lparr>WithdrawResult.isPartial = False, WithdrawResult.tx = ''signature'',
           WithdrawResult.recipient = toBase58 (WithdrawParams.recipient p),
           WithdrawResult.amount_in_lamports = WithdrawParams.amount_in_lamports p,
           WithdrawResult.fee_in_lamports = 0\<rparr>,
      w\<lparr>outside := outside w @ [toBase58 (WithdrawParams.recipient p)]\<rparr>)"

definition withdrawSPL_accepted ::
  "(PublicKey WithdrawSPLParams, WithdrawSPLResult, string list) collaborator" where
  "withdrawSPL_accepted p w =
     (Inr \<lparr>WithdrawSPLResult.isPartial = False, WithdrawSPLResult.tx = ''signature'',
           WithdrawSPLResult.recipient = toBase58 (WithdrawSPLParams.recipient p),
           WithdrawSPLResult.base_units = WithdrawSPLParams.base_units p,
           WithdrawSPLResult.fee_base_units = 0\<rparr>,
      w\<lparr>outside := outside w @ [toBase58 (WithdrawSPLParams.recipient p)]\<rparr>)"

definition getUtxos_found :: "('k, int list, 'w) collaborator" where
  "getUtxos_found k w = (Inr [600000, 400000], w)"

definition getBalanceFromUtxos_sum :: "int list \<Rightarrow> js_object" where
  "getBalanceFromUtxos_sum utxos = [(''lamports'', sum_list utxos)]"

definition getBalanceFromUtxosSPL_sum :: "int list \<Rightarrow> js_object" where
  "getBalanceFromUtxosSPL_sum utxos =
     [(''base_units'', sum_list utxos), (''lamports'', sum_list utxos)]"

definition failing_logger :: LoggerFn where
  "failing_logger level message st = Inl (Error ''logger failed'')"

definition empty_world :: "string list world" where
  "empty_world = \<lparr>storage = Map.empty, outside = []\<rparr>"

definition owner_key :: PublicKey where
  "owner_key = PublicKey (replicate 31 0 @ [1])"

definition ata_stand_in :: "PublicKey \<Rightarrow> PublicKey \<Rightarrow> error + PublicKey" where
  "ata_stand_in mint owner = Inr (PublicKey (map2 (+) (toBytes mint) (toBytes owner)))"

definition idle_client :: "PublicKey PrivacyCashV2" where
  "idle_client = \<lparr>publicKey = owner_key, isRunning = Some False, status = []\<rparr>"

definition cached_world :: "string list world" where
  "cached_world =
     \<lparr>storage =
        [LSK_FETCH_OFFSET @ toBase58 owner_key \<mapsto> ''20000'',
         LSK_ENCRYPTED_OUTPUTS @ toBase58 owner_key \<mapsto> ''[]'',
         LSK_FETCH_OFFSET @ toBase58 USDC_MINT \<mapsto> ''10000''],
      outside = []\<rparr>"

section \<open>The addresses of the constants decode\<close>

lemma new_PublicKey_FEE_RECIPIENT: "new_PublicKey FEE_RECIPIENT_address = Inr FEE_RECIPIENT"
  by code_simp

lemma new_PublicKey_USDC_MINT: "new_PublicKey USDC_MINT_address = Inr USDC_MINT"
  by code_simp

lemma toBase58_FEE_RECIPIENT: "toBase58 FEE_RECIPIENT = FEE_RECIPIENT_address"
  by code_simp

lemma toBase58_owner_key: "toBase58 owner_key = ''11111111111111111111111111111112''"
  by code_simp

lemma new_PublicKey_empty: "new_PublicKey [] = Inl (Error ''Invalid public key input'')"
  by code_simp


lemma new_PublicKey_zero: "new_PublicKey ''0'' = Inl (Error ''Non-base58 character'')"
  by code_simp

section \<open>Constants of the protocol\<close>

text \<open>
  C5. The constant that sizes the groups in which encrypted outputs are fetched,
  \<open>FETCH_UTXOS_GROUP_SIZE\<close>, is 10,000.
\<close>

theorem fetch_group_size_is_10000: "FETCH_UTXOS_GROUP_SIZE = 10000"
  by (simp add: FETCH_UTXOS_GROUP_SIZE_def)

text \<open>
  C6. The discriminator of the native transact instruction and the discriminator of the SPL
  transact instruction are 8 bytes long each, and they are two different constants.
\<close>

theorem discriminators_eight_bytes_distinct:
  "length TRANSACT_IX_DISCRIMINATOR = 8
   \<and> length TRANSACT_SPL_IX_DISCRIMINATOR = 8
   \<and> TRANSACT_IX_DISCRIMINATOR \<noteq> TRANSACT_SPL_IX_DISCRIMINATOR"
  by (simp add: TRANSACT_IX_DISCRIMINATOR_def TRANSACT_SPL_IX_DISCRIMINATOR_def)

section \<open>Clearing the cache\<close>

lemma removeItem_twice: "removeItem b (removeItem a st) = st |` (- {a, b})"
  by (rule ext) (simp add: removeItem_def restrict_map_def)

lemma clearCache_storage:
  "storage (snd (clearCache lsk this w)) =
     storage w |` (- {LSK_FETCH_OFFSET @ lsk (publicKey this),
                      LSK_ENCRYPTED_OUTPUTS @ lsk (publicKey this)})"
  by (simp add: clearCache_def truthy_object_def Let_def removeItem_twice)

lemma clearCacheSPL_storage:
  assumes "gata (case mint of None \<Rightarrow> usdc | Some m \<Rightarrow> m) (publicKey this) = Inr ata"
  shows "storage (snd (clearCacheSPL usdc gata lsk mint this w)) =
           storage w |` (- {LSK_FETCH_OFFSET @ lsk ata, LSK_ENCRYPTED_OUTPUTS @ lsk ata})"
  using assms
  by (simp add: clearCacheSPL_def truthy_object_def Let_def removeItem_twice)

text \<open>
  When the associated token address cannot be derived, \<open>clearCacheSPL\<close> rejects and the
  cache is as it was.
\<close>

lemma clearCacheSPL_rejected:
  assumes "gata (case mint of None \<Rightarrow> usdc | Some m \<Rightarrow> m) (publicKey this) = Inl e"
  shows "clearCacheSPL usdc gata lsk mint this w = (Inl e, w)"
  using assms by (simp add: clearCacheSPL_def truthy_object_def)

text \<open>
  C7. After \<open>clearCache\<close> the cache is the old cache without two keys, the fetch-offset key
  and the encrypted-outputs key made from the owner's public key; the two keys differ, every
  other key keeps its entry, and nothing outside the cache changes. \<open>clearCacheSPL\<close> does
  the same with the two keys made from the owner's associated token address for the mint
  (USDC when none is given), whenever that address can be derived.
\<close>

theorem clearCache_removes_two_keys:
  "(storage (snd (clearCache lsk this w)) =
      storage w |` (- {LSK_FETCH_OFFSET @ lsk (publicKey this),
                       LSK_ENCRYPTED_OUTPUTS @ lsk (publicKey this)})
    \<and> LSK_FETCH_OFFSET @ lsk (publicKey this) \<noteq> LSK_ENCRYPTED_OUTPUTS @ lsk (publicKey this)
    \<and> outside (snd (clearCache lsk this w)) = outside w
    \<and> fst (clearCache lsk this w) = Inr this)
   \<and> (gata (case mint of None \<Rightarrow> usdc | Some m \<Rightarrow> m) (publicKey this) = Inr ata \<longrightarrow>
        storage (snd (clearCacheSPL usdc gata lskSPL mint this w)) =
          storage w |` (- {LSK_FETCH_OFFSET @ lskSPL ata, LSK_ENCRYPTED_OUTPUTS @ lskSPL ata})
        \<and> LSK_FETCH_OFFSET @ lskSPL ata \<noteq> LSK_ENCRYPTED_OUTPUTS @ lskSPL ata
        \<and> outside (snd (clearCacheSPL usdc gata lskSPL mint this w)) = outside w
        \<and> fst (clearCacheSPL usdc gata lskSPL mint this w) = Inr this)"
  by (simp add: clearCache_storage clearCacheSPL_storage)
     (simp add: clearCache_def clearCacheSPL_def truthy_object_def Let_def
        LSK_FETCH_OFFSET_def LSK_ENCRYPTED_OUTPUTS_def)

lemma ata_of_owner:
  "ata_stand_in USDC_MINT owner_key = Inr (PublicKey
     [198, 250, 122, 243, 190, 219, 173, 58, 61, 101, 243, 106, 171, 201, 116, 49,
      177, 187, 228, 194, 210, 246, 224, 228, 124, 166, 2, 3, 69, 47, 93, 98])"
  by code_simp

text \<open>
  A cache with the owner's two native entries and one entry of another key: clearing the
  native cache leaves that entry alone, and clearing the cache of the owner's USDC token
  address takes away exactly its two keys.
\<close>

theorem clearCache_removes_two_keys_witness:
  "ata_stand_in USDC_MINT (publicKey idle_client) = Inr (PublicKey
     [198, 250, 122, 243, 190, 219, 173, 58, 61, 101, 243, 106, 171, 201, 116, 49,
      177, 187, 228, 194, 210, 246, 224, 228, 124, 166, 2, 3, 69, 47, 93, 98])
   \<and> dom (storage (snd (clearCache toBase58 idle_client cached_world)))
       = {LSK_FETCH_OFFSET @ toBase58 USDC_MINT}
   \<and> dom (storage (snd (clearCacheSPL USDC_MINT ata_stand_in toBase58 None idle_client
                          cached_world)))
       = dom (storage cached_world)
           - {LSK_FETCH_OFFSET @ toBase58 (PublicKey
                [198, 250, 122, 243, 190, 219, 173, 58, 61, 101, 243, 106, 171, 201, 116, 49,
                 177, 187, 228, 194, 210, 246, 224, 228, 124, 166, 2, 3, 69, 47, 93, 98]),
              LSK_ENCRYPTED_OUTPUTS @ toBase58 (PublicKey
                [198, 250, 122, 243, 190, 219, 173, 58, 61, 101, 243, 106, 171, 201, 116, 49,
                 177, 187, 228, 194, 210, 246, 224, 228, 124, 166, 2, 3, 69, 47, 93, 98])}"
proof -
  let ?ata = "PublicKey
     [198, 250, 122, 243, 190, 219, 173, 58, 61, 101, 243, 106, 171, 201, 116, 49,
      177, 187, 228, 194, 210, 246, 224, 228, 124, 166, 2, 3, 69, 47, 93, 98]"
  have a: "ata_stand_in (case None of None \<Rightarrow> USDC_MINT | Some m \<Rightarrow> m) (publicKey idle_client)
           = Inr ?ata"
    using ata_of_owner by (simp add: idle_client_def)
  note t = clearCache_removes_two_keys
      [where lsk = toBase58 and this = idle_client and w = cached_world
         and gata = ata_stand_in and mint = None and usdc = USDC_MINT and ata = ?ata
         and lskSPL = toBase58]
  have 1: "storage (snd (clearCache toBase58 idle_client cached_world)) =
      storage cached_world |` (- {LSK_FETCH_OFFSET @ toBase58 (publicKey idle_client),
                       LSK_ENCRYPTED_OUTPUTS @ toBase58 (publicKey idle_client)})"
    using t by blast
  have 2: "storage (snd (clearCacheSPL USDC_MINT ata_stand_in toBase58 None idle_client
                          cached_world)) =
          storage cached_world
            |` (- {LSK_FETCH_OFFSET @ toBase58 ?ata, LSK_ENCRYPTED_OUTPUTS @ toBase58 ?ata})"
    using t a by blast
  have k: "toBase58 USDC_MINT \<noteq> toBase58 owner_key"
    by code_simp
  have 3: "dom (storage (snd (clearCache toBase58 idle_client cached_world)))
       = {LSK_FETCH_OFFSET @ toBase58 USDC_MINT}"
    unfolding 1 using k
    by (auto simp: cached_world_def idle_client_def LSK_FETCH_OFFSET_def
        LSK_ENCRYPTED_OUTPUTS_def split: if_splits)
  show ?thesis
    using a 3 unfolding 2 by (simp add: Diff_eq Int_commute)
qed

section \<open>The running flag\<close>

lemma isOperationRunning_leave: "isOperationRunning (leave this) = False"
  by (simp add: isOperationRunning_def leave_def)

text \<open>
  Each method leaves the instance as \<open>enter\<close> made it when the logger threw, and as its
  \<open>finally\<close> block makes it otherwise, whatever the collaborators did.
\<close>

lemma deposit_client:
  "fst (snd (PrivacyCashV2_deposit lg gi dep a r this w)) =
     (case enter lg Deposit this of (Inl e, c) \<Rightarrow> c | (Inr u, c) \<Rightarrow> leave c)"
  by (simp add: PrivacyCashV2_deposit_def enter_def leave_def Let_def
      split: prod.splits sum.splits)

lemma depositV2_client:
  "fst (snd (PrivacyCashV2_depositV2 lg npk gi dep t f fr r this w)) =
     (case enter lg DepositV2 this of (Inl e, c) \<Rightarrow> c | (Inr u, c) \<Rightarrow> leave c)"
  by (simp add: PrivacyCashV2_depositV2_def enter_def leave_def Let_def
      split: prod.splits sum.splits)

lemma withdraw_client:
  "fst (snd (PrivacyCashV2_withdraw lg npk gi wd a ra this w)) =
     (case enter lg Withdraw this of (Inl e, c) \<Rightarrow> c | (Inr u, c) \<Rightarrow> leave c)"
  by (simp add: PrivacyCashV2_withdraw_def enter_def leave_def Let_def
      split: prod.splits sum.splits)

lemma getPrivateBalance_client:
  "fst (snd (PrivacyCashV2_getPrivateBalance lg gu gb this w)) =
     (case enter lg GetPrivateBalance this of (Inl e, c) \<Rightarrow> c | (Inr u, c) \<Rightarrow> leave c)"
  by (simp add: PrivacyCashV2_getPrivateBalance_def enter_def leave_def Let_def
      split: prod.splits sum.splits)

lemma depositSPL_client:
  "fst (snd (PrivacyCashV2_depositSPL lg usdc gi dep a m r this w)) =
     (case enter lg DepositSPL this of (Inl e, c) \<Rightarrow> c | (Inr u, c) \<Rightarrow> leave c)"
  by (simp add: PrivacyCashV2_depositSPL_def enter_def leave_def Let_def
      split: prod.splits sum.splits)

lemma depositSPLV2_client:
  "fst (snd (PrivacyCashV2_depositSPLV2 lg usdc npk gi dep t f fr m r this w)) =
     (case enter lg DepositSPLV2 this of (Inl e, c) \<Rightarrow> c | (Inr u, c) \<Rightarrow> leave c)"
  by (simp add: PrivacyCashV2_depositSPLV2_def enter_def leave_def Let_def
      split: prod.splits sum.splits)

lemma withdrawSPL_client:
  "fst (snd (PrivacyCashV2_withdrawSPL lg usdc npk gi wd a m ra this w)) =
     (case enter lg WithdrawSPL this of (Inl e, c) \<Rightarrow> c | (Inr u, c) \<Rightarrow> leave c)"
  by (simp add: PrivacyCashV2_withdrawSPL_def enter_def leave_def Let_def
      split: prod.splits sum.splits)

lemma getPrivateBalanceSPL_client:
  "fst (snd (PrivacyCashV2_getPrivateBalanceSPL lg usdc gu gb m this w)) =
     (case enter lg GetPrivateBalanceSPL this of (Inl e, c) \<Rightarrow> c | (Inr u, c) \<Rightarrow> leave c)"
  by (simp add: PrivacyCashV2_getPrivateBalanceSPL_def enter_def leave_def Let_def
      split: prod.splits sum.splits)

lemma enter_returns:
  "lg ''info'' (start_message op) (status this) = Inr st \<Longrightarrow>
     \<exists>c. enter lg op this = (Inr (), c)"
  by (simp add: enter_def logger_info_def Let_def)

lemma enter_throws:
  "lg ''info'' (start_message op) (status this) = Inl e \<Longrightarrow>
     enter lg op this =
       (Inl e, if is_mutating op then this\<lparr>isRunning := Some True\<rparr> else this)"
  by (simp add: enter_def logger_info_def Let_def)

text \<open>
  When the logger returns, the flag is false once the call has settled, for each of the
  eight operations and whatever the collaborators do.
\<close>

lemma running_flag_reset_when_logger_returns:
  assumes "\<And>message. \<exists>st. lg ''info'' message (status this) = Inr st"
  shows "isOperationRunning (fst (snd (PrivacyCashV2_deposit lg gi dep a r this w))) = False"
    and "isOperationRunning
           (fst (snd (PrivacyCashV2_depositV2 lg npk gi dep2 t f fr r this w))) = False"
    and "isOperationRunning (fst (snd (PrivacyCashV2_withdraw lg npk gi wd a ra this w))) = False"
    and "isOperationRunning
           (fst (snd (PrivacyCashV2_depositSPL lg usdc gi deps a m r this w))) = False"
    and "isOperationRunning
           (fst (snd (PrivacyCashV2_depositSPLV2 lg usdc npk gi deps2 t f fr m r this w))) = False"
    and "isOperationRunning
           (fst (snd (PrivacyCashV2_withdrawSPL lg usdc npk gi wds a m ra this w))) = False"
    and "isOperationRunning
           (fst (snd (PrivacyCashV2_getPrivateBalance lg gu gb this w))) = False"
    and "isOperationRunning
           (fst (snd (PrivacyCashV2_getPrivateBalanceSPL lg usdc gus gbs m this w))) = False"
proof -
  have r: "\<exists>c. enter lg op this = (Inr (), c)" for op
    using assms [of "start_message op"] by (auto dest: enter_returns)
  show "isOperationRunning (fst (snd (PrivacyCashV2_deposit lg gi dep a r this w))) = False"
    using r [of Deposit] by (auto simp: deposit_client isOperationRunning_leave)
  show "isOperationRunning
           (fst (snd (PrivacyCashV2_depositV2 lg npk gi dep2 t f fr r this w))) = False"
    using r [of DepositV2] by (auto simp: depositV2_client isOperationRunning_leave)
  show "isOperationRunning (fst (snd (PrivacyCashV2_withdraw lg npk gi wd a ra this w))) = False"
    using r [of Withdraw] by (auto simp: withdraw_client isOperationRunning_leave)
  show "isOperationRunning
           (fst (snd (PrivacyCashV2_depositSPL lg usdc gi deps a m r this w))) = False"
    using r [of DepositSPL] by (auto simp: depositSPL_client isOperationRunning_leave)
  show "isOperationRunning
           (fst (snd (PrivacyCashV2_depositSPLV2 lg usdc npk gi deps2 t f fr m r this w))) = False"
    using r [of DepositSPLV2] by (auto simp: depositSPLV2_client isOperationRunning_leave)
  show "isOperationRunning
           (fst (snd (PrivacyCashV2_withdrawSPL lg usdc npk gi wds a m ra this w))) = False"
    using r [of WithdrawSPL] by (auto simp: withdrawSPL_client isOperationRunning_leave)
  show "isOperationRunning
           (fst (snd (PrivacyCashV2_getPrivateBalance lg gu gb this w))) = False"
    using r [of GetPrivateBalance] by (auto simp: getPrivateBalance_client isOperationRunning_leave)
  show "isOperationRunning
           (fst (snd (PrivacyCashV2_getPrivateBalanceSPL lg usdc gus gbs m this w))) = False"
    using r [of GetPrivateBalanceSPL]
    by (auto simp: getPrivateBalanceSPL_client isOperationRunning_leave)
qed

text \<open>
  When the logger throws, a mutating operation rejects with the flag set, and a balance
  query rejects with the instance as it was.
\<close>

lemma mutating_operation_rejected_by_logger:
  assumes "lg ''info'' ''start depositing'' (status this) = Inl e"
  shows "PrivacyCashV2_deposit lg gi dep a r this w = (Inl e, this\<lparr>isRunning := Some True\<rparr>, w)"
  using assms by (simp add: PrivacyCashV2_deposit_def logger_info_def Let_def)

lemma balance_query_rejected_by_logger:
  assumes "lg ''info'' ''getting private balance'' (status this) = Inl e"
  shows "PrivacyCashV2_getPrivateBalance lg gu gb this w = (Inl e, this, w)"
  using assms by (simp add: PrivacyCashV2_getPrivateBalance_def logger_info_def)

text \<open>
  C8. The claim does not hold of the code. On an idle client with a logger that throws, a
  deposit rejects with the error of the logger, and \<open>isOperationRunning\<close> is true on the
  instance that the settled call leaves behind: the logger is called after the flag is set
  and before the \<open>try\<close> block whose \<open>finally\<close> resets it. A balance query with the
  same logger, which calls the logger before it sets the flag, rejects with the flag false.
\<close>

theorem flag_left_set_by_throwing_logger:
  "isOperationRunning idle_client = False
   \<and> PrivacyCashV2_deposit failing_logger getInstance_ready
        (\<lambda>p w. (Inr \<lparr>DepositResult.tx = ''signature''\<rparr>, w)) 1000000 None
        idle_client empty_world
       = (Inl (Error ''logger failed''), idle_client\<lparr>isRunning := Some True\<rparr>, empty_world)
   \<and> isOperationRunning (idle_client\<lparr>isRunning := Some True\<rparr>) = True
   \<and> isOperationRunning
        (fst (snd (PrivacyCashV2_getPrivateBalance failing_logger getUtxos_found
                     getBalanceFromUtxos_sum idle_client empty_world))) = False"
  by (simp add: PrivacyCashV2_deposit_def PrivacyCashV2_getPrivateBalance_def
      logger_info_def failing_logger_def isOperationRunning_def idle_client_def Let_def)

section \<open>Operations in flight at the same time\<close>

text \<open>
  The flag is one boolean for all the calls in flight: when one of them settles the flag
  goes to false, also while others are still running.
\<close>

lemma settle_clears_flag:
  "i < length (in_flight rt) \<Longrightarrow> isOperationRunning (client (settle i rt)) = False"
  by (simp add: settle_def isOperationRunning_leave)

text \<open>No mutating method reads the flag: a run does not depend on its value at the start.\<close>

lemma flag_not_read:
  "PrivacyCashV2_deposit lg gi dep a r (this\<lparr>isRunning := flag\<rparr>) w =
     PrivacyCashV2_deposit lg gi dep a r this w"
  "PrivacyCashV2_depositV2 lg npk gi dep2 t f fr r (this\<lparr>isRunning := flag\<rparr>) w =
     PrivacyCashV2_depositV2 lg npk gi dep2 t f fr r this w"
  "PrivacyCashV2_withdraw lg npk gi wd a ra (this\<lparr>isRunning := flag\<rparr>) w =
     PrivacyCashV2_withdraw lg npk gi wd a ra this w"
  "PrivacyCashV2_depositSPL lg usdc gi deps a m r (this\<lparr>isRunning := flag\<rparr>) w =
     PrivacyCashV2_depositSPL lg usdc gi deps a m r this w"
  "PrivacyCashV2_depositSPLV2 lg usdc npk gi deps2 t f fr m r (this\<lparr>isRunning := flag\<rparr>) w =
     PrivacyCashV2_depositSPLV2 lg usdc npk gi deps2 t f fr m r this w"
  "PrivacyCashV2_withdrawSPL lg usdc npk gi wds a m ra (this\<lparr>isRunning := flag\<rparr>) w =
     PrivacyCashV2_withdrawSPL lg usdc npk gi wds a m ra this w"
  by (simp_all add: PrivacyCashV2_deposit_def PrivacyCashV2_depositV2_def
      PrivacyCashV2_withdraw_def PrivacyCashV2_depositSPL_def PrivacyCashV2_depositSPLV2_def
      PrivacyCashV2_withdrawSPL_def logger_info_def Let_def)

lemma call_entered:
  "enter lg op (client rt) = (Inr u, c) \<Longrightarrow>
     in_flight (call lg op rt) = in_flight rt @ [op] \<and> client (call lg op rt) = c"
  by (simp add: call_def)

text \<open>
  C2, as the code has it. A mutating operation started while the flag is set is not held
  back: each of the six mutating methods runs from an instance whose flag is set exactly as
  it runs from the same instance with any other value of the flag (the same outcome, the
  same instance and the same world afterwards, for all collaborators, so the inner operation
  is called with the same arguments); and in the runtime a call whose logger returns joins
  the calls in flight, whatever the flag is and whatever is in flight already.
\<close>

theorem second_mutation_not_held_back:
  "PrivacyCashV2_deposit lg gi dep a r (this\<lparr>isRunning := Some True\<rparr>) w =
     PrivacyCashV2_deposit lg gi dep a r (this\<lparr>isRunning := flag\<rparr>) w
   \<and> PrivacyCashV2_depositV2 lg npk gi dep2 t f fr r (this\<lparr>isRunning := Some True\<rparr>) w =
       PrivacyCashV2_depositV2 lg npk gi dep2 t f fr r (this\<lparr>isRunning := flag\<rparr>) w
   \<and> PrivacyCashV2_withdraw lg npk gi wd a ra (this\<lparr>isRunning := Some True\<rparr>) w =
       PrivacyCashV2_withdraw lg npk gi wd a ra (this\<lparr>isRunning := flag\<rparr>) w
   \<and> PrivacyCashV2_depositSPL lg usdc gi deps a m r (this\<lparr>isRunning := Some True\<rparr>) w =
       PrivacyCashV2_depositSPL lg usdc gi deps a m r (this\<lparr>isRunning := flag\<rparr>) w
   \<and> PrivacyCashV2_depositSPLV2 lg usdc npk gi deps2 t f fr m r
         (this\<lparr>isRunning := Some True\<rparr>) w =
       PrivacyCashV2_depositSPLV2 lg usdc npk gi deps2 t f fr m r (this\<lparr>isRunning := flag\<rparr>) w
   \<and> PrivacyCashV2_withdrawSPL lg usdc npk gi wds a m ra (this\<lparr>isRunning := Some True\<rparr>) w =
       PrivacyCashV2_withdrawSPL lg usdc npk gi wds a m ra (this\<lparr>isRunning := flag\<rparr>) w
   \<and> (is_mutating op \<and> enter lg op (client rt) = (Inr u, c) \<longrightarrow>
        mutations_in_flight (call lg op rt) = mutations_in_flight rt @ [op]
        \<and> isOperationRunning (client (call lg op rt)) = True)"
proof -
  have "mutations_in_flight (call lg op rt) = mutations_in_flight rt @ [op]
        \<and> isOperationRunning (client (call lg op rt)) = True"
    if m: "is_mutating op" and e: "enter lg op (client rt) = (Inr u, c)"
  proof -
    from e m have "isRunning c = Some True"
      by (auto simp: enter_def logger_info_def Let_def split: sum.splits)
    then show ?thesis
      using call_entered [OF e] m by (simp add: mutations_in_flight_def isOperationRunning_def)
  qed
  then show ?thesis
    by (simp only: flag_not_read) blast
qed

text \<open>
  C2, as the claim states it, fails: on an idle client a deposit is called, so that
  \<open>isOperationRunning\<close> is true; a withdrawal called then is in flight together with the
  deposit, and run on that client it reaches the ledger.
\<close>

theorem two_mutations_in_flight_counterexample:
  "isOperationRunning
     (client (call constructor_logger Deposit \<lparr>client = idle_client, in_flight = []\<rparr>)) = True
   \<and> mutations_in_flight
        (call constructor_logger Withdraw
           (call constructor_logger Deposit \<lparr>client = idle_client, in_flight = []\<rparr>))
       = [Deposit, Withdraw]
   \<and> fst (PrivacyCashV2_withdraw constructor_logger new_PublicKey getInstance_ready
             withdraw_accepted 1000 None
             (client (call constructor_logger Deposit \<lparr>client = idle_client, in_flight = []\<rparr>))
             empty_world)
       = Inr \<lparr>WithdrawResult.isPartial = False, WithdrawResult.tx = ''signature'',
              WithdrawResult.recipient = ''11111111111111111111111111111112'',
              WithdrawResult.amount_in_lamports = 1000, WithdrawResult.fee_in_lamports = 0\<rparr>"
  by (simp add: call_def mutations_in_flight_def enter_def logger_info_def constructor_logger_def
      isOperationRunning_def Let_def PrivacyCashV2_withdraw_def getInstance_ready_def
      withdraw_accepted_def idle_client_def toBase58_owner_key)

text \<open>
  A withdrawal called on a client that runs a deposit: its logger returns, and it is the
  second mutation in flight.
\<close>

theorem second_mutation_not_held_back_witness:
  "is_mutating Withdraw
   \<and> enter constructor_logger Withdraw
        (client (call constructor_logger Deposit \<lparr>client = idle_client, in_flight = []\<rparr>))
       = (Inr (), idle_client\<lparr>isRunning := Some True, status := ''start withdrawing''\<rparr>)
   \<and> mutations_in_flight
        (call constructor_logger Withdraw
           (call constructor_logger Deposit \<lparr>client = idle_client, in_flight = []\<rparr>))
       = mutations_in_flight
           (call constructor_logger Deposit \<lparr>client = idle_client, in_flight = []\<rparr>)
         @ [Withdraw]"
proof -
  let ?rt = "call constructor_logger Deposit \<lparr>client = idle_client, in_flight = []\<rparr>"
  have e: "enter constructor_logger Withdraw (client ?rt)
       = (Inr (), idle_client\<lparr>isRunning := Some True, status := ''start withdrawing''\<rparr>)"
    by (simp add: call_def enter_def logger_info_def constructor_logger_def Let_def
        idle_client_def)
  have "mutations_in_flight (call constructor_logger Withdraw ?rt)
          = mutations_in_flight ?rt @ [Withdraw]"
    using second_mutation_not_held_back
            [where lg = constructor_logger and op = Withdraw and rt = ?rt and u = "()"
               and c = "idle_client\<lparr>isRunning := Some True, status := ''start withdrawing''\<rparr>",
             THEN conjunct2, THEN conjunct2, THEN conjunct2, THEN conjunct2, THEN conjunct2,
             THEN conjunct2]
          e
    by simp
  then show ?thesis
    using e by simp
qed

section \<open>The shapes of the balances\<close>

text \<open>
  A balance query that fulfils resolves to the object that the helper built from the notes
  found, as it is.
\<close>

lemma getPrivateBalance_result:
  "fst (PrivacyCashV2_getPrivateBalance lg gu gb this w) = Inr obj \<Longrightarrow> \<exists>utxos. obj = gb utxos"
  by (auto simp: PrivacyCashV2_getPrivateBalance_def Let_def split: sum.splits prod.splits)

lemma getPrivateBalanceSPL_result:
  "fst (PrivacyCashV2_getPrivateBalanceSPL lg usdc gus gbs m this w) = Inr obj
   \<Longrightarrow> \<exists>utxos. obj = gbs utxos"
  by (auto simp: PrivacyCashV2_getPrivateBalanceSPL_def Let_def split: sum.splits prod.splits)

lemma two_properties:
  assumes "of_type_base_units_lamports obj"
  shows "card (property_names obj) \<noteq> 1"
proof
  assume "card (property_names obj) = 1"
  then obtain k where k: "property_names obj = {k}"
    by (auto simp: card_Suc_eq)
  from assms have "''base_units'' \<in> property_names obj" and "''lamports'' \<in> property_names obj"
    by (simp_all add: of_type_base_units_lamports_def)
  with k have "''base_units'' = ''lamports''"
    by simp
  then show False
    by simp
qed

text \<open>
  C3, as the code has it. When \<open>getBalanceFromUtxos\<close> builds objects of the type that
  \<open>getPrivateBalance\<close> declares, a fulfilled \<open>getPrivateBalance\<close> resolves to an object
  with the property \<open>lamports\<close>. When \<open>getBalanceFromUtxosSPL\<close> builds objects of the
  type that \<open>getPrivateBalanceSPL\<close> declares, a fulfilled \<open>getPrivateBalanceSPL\<close>
  resolves to an object with the properties \<open>base_units\<close> and \<open>lamports\<close>, which is
  not an object with exactly one property.
\<close>

theorem balance_result_types:
  "((\<forall>utxos. of_type_lamports (gb utxos))
      \<and> fst (PrivacyCashV2_getPrivateBalance lg gu gb this w) = Inr obj
     \<longrightarrow> ''lamports'' \<in> property_names obj)
   \<and> ((\<forall>utxos. of_type_base_units_lamports (gbs utxos))
        \<and> fst (PrivacyCashV2_getPrivateBalanceSPL lg usdc gus gbs m this w) = Inr objs
       \<longrightarrow> ''base_units'' \<in> property_names objs \<and> ''lamports'' \<in> property_names objs
           \<and> card (property_names objs) \<noteq> 1)"
proof (intro conjI impI)
  assume "(\<forall>utxos. of_type_lamports (gb utxos))
      \<and> fst (PrivacyCashV2_getPrivateBalance lg gu gb this w) = Inr obj"
  then show "''lamports'' \<in> property_names obj"
    by (auto dest!: getPrivateBalance_result simp: of_type_lamports_def)
next
  assume a: "(\<forall>utxos. of_type_base_units_lamports (gbs utxos))
        \<and> fst (PrivacyCashV2_getPrivateBalanceSPL lg usdc gus gbs m this w) = Inr objs"
  then have t: "of_type_base_units_lamports objs"
    by (auto dest!: getPrivateBalanceSPL_result)
  then show "''base_units'' \<in> property_names objs" and "''lamports'' \<in> property_names objs"
    by (simp_all add: of_type_base_units_lamports_def)
  from t show "card (property_names objs) \<noteq> 1"
    by (rule two_properties)
qed

lemma getBalanceFromUtxosSPL_sum_typed:
  "of_type_base_units_lamports (getBalanceFromUtxosSPL_sum utxos)"
  by (simp add: getBalanceFromUtxosSPL_sum_def of_type_base_units_lamports_def property_names_def)

lemma getBalanceFromUtxos_sum_typed: "of_type_lamports (getBalanceFromUtxos_sum utxos)"
  by (simp add: getBalanceFromUtxos_sum_def of_type_lamports_def property_names_def)

lemma getPrivateBalanceSPL_instance:
  "fst (PrivacyCashV2_getPrivateBalanceSPL constructor_logger USDC_MINT getUtxos_found
          getBalanceFromUtxosSPL_sum None idle_client empty_world)
     = Inr [(''base_units'', 1000000), (''lamports'', 1000000)]"
  by (simp add: PrivacyCashV2_getPrivateBalanceSPL_def logger_info_def constructor_logger_def
      getUtxos_found_def getBalanceFromUtxosSPL_sum_def Let_def)

lemma getPrivateBalance_instance:
  "fst (PrivacyCashV2_getPrivateBalance constructor_logger getUtxos_found
          getBalanceFromUtxos_sum idle_client empty_world)
     = Inr [(''lamports'', 1000000)]"
  by (simp add: PrivacyCashV2_getPrivateBalance_def logger_info_def constructor_logger_def
      getUtxos_found_def getBalanceFromUtxos_sum_def Let_def)

text \<open>
  C3, as the claim states it, fails. There are fulfilled runs of \<open>getPrivateBalanceSPL\<close>
  with a helper of the declared type (the first two conjuncts give one, with a helper that
  stands in for \<open>getBalanceFromUtxosSPL\<close>), and no such run, with whatever helper of that
  type, logger, notes, mint, client and world, resolves to an object with exactly one
  property.
\<close>

theorem single_amount_shape_counterexample:
  "(\<forall>utxos. of_type_base_units_lamports (getBalanceFromUtxosSPL_sum utxos))
   \<and> (\<exists>obj. fst (PrivacyCashV2_getPrivateBalanceSPL constructor_logger USDC_MINT
                   getUtxos_found getBalanceFromUtxosSPL_sum None idle_client empty_world)
              = Inr obj)
   \<and> \<not> (\<exists>lg usdc (gus :: (PublicKey \<times> PublicKey, int list, string list) collaborator)
           gbs m this w obj.
           (\<forall>utxos. of_type_base_units_lamports (gbs utxos))
           \<and> fst (PrivacyCashV2_getPrivateBalanceSPL lg usdc gus gbs m this w) = Inr obj
           \<and> card (property_names obj) = 1)"
proof (intro conjI)
  show "\<forall>utxos. of_type_base_units_lamports (getBalanceFromUtxosSPL_sum utxos)"
    by (simp add: getBalanceFromUtxosSPL_sum_typed)
  show "\<exists>obj. fst (PrivacyCashV2_getPrivateBalanceSPL constructor_logger USDC_MINT
                   getUtxos_found getBalanceFromUtxosSPL_sum None idle_client empty_world)
              = Inr obj"
    by (simp add: getPrivateBalanceSPL_instance)
  show "\<not> (\<exists>lg usdc (gus :: (PublicKey \<times> PublicKey, int list, string list) collaborator)
           gbs m this w obj.
           (\<forall>utxos. of_type_base_units_lamports (gbs utxos))
           \<and> fst (PrivacyCashV2_getPrivateBalanceSPL lg usdc gus gbs m this w) = Inr obj
           \<and> card (property_names obj) = 1)"
  proof
    assume "\<exists>lg usdc (gus :: (PublicKey \<times> PublicKey, int list, string list) collaborator)
           gbs m this w obj.
           (\<forall>utxos. of_type_base_units_lamports (gbs utxos))
           \<and> fst (PrivacyCashV2_getPrivateBalanceSPL lg usdc gus gbs m this w) = Inr obj
           \<and> card (property_names obj) = 1"
    then obtain lg usdc and gus :: "(PublicKey \<times> PublicKey, int list, string list) collaborator"
      and gbs m this w obj
      where t: "\<forall>utxos. of_type_base_units_lamports (gbs utxos)"
        and r: "fst (PrivacyCashV2_getPrivateBalanceSPL lg usdc gus gbs m this w) = Inr obj"
        and c: "card (property_names obj) = 1"
      by blast
    from r obtain utxos where "obj = gbs utxos"
      by (auto dest: getPrivateBalanceSPL_result)
    with t have "of_type_base_units_lamports obj"
      by simp
    then have "card (property_names obj) \<noteq> 1"
      by (rule two_properties)
    with c show False
      by simp
  qed
qed

text \<open>
  Both queries on the same notes, with helpers of the declared types: one property against
  two.
\<close>

theorem balance_result_types_witness:
  "(\<forall>utxos. of_type_lamports (getBalanceFromUtxos_sum utxos))
   \<and> fst (PrivacyCashV2_getPrivateBalance constructor_logger getUtxos_found
            getBalanceFromUtxos_sum idle_client empty_world)
       = Inr [(''lamports'', 1000000)]
   \<and> ''lamports'' \<in> property_names [(''lamports'', 1000000)]
   \<and> (\<forall>utxos. of_type_base_units_lamports (getBalanceFromUtxosSPL_sum utxos))
   \<and> fst (PrivacyCashV2_getPrivateBalanceSPL constructor_logger USDC_MINT getUtxos_found
            getBalanceFromUtxosSPL_sum None idle_client empty_world)
       = Inr [(''base_units'', 1000000), (''lamports'', 1000000)]
   \<and> card (property_names [(''base_units'', 1000000), (''lamports'', 1000000)]) \<noteq> 1"
proof -
  note t = balance_result_types
      [where gb = getBalanceFromUtxos_sum and lg = constructor_logger and gu = getUtxos_found
         and this = idle_client and w = empty_world and obj = "[(''lamports'', 1000000)]"
         and gbs = getBalanceFromUtxosSPL_sum and usdc = USDC_MINT and gus = getUtxos_found
         and m = None and objs = "[(''base_units'', 1000000), (''lamports'', 1000000)]"]
  have "''lamports'' \<in> property_names [(''lamports'', 1000000)]"
    using t [THEN conjunct1] getBalanceFromUtxos_sum_typed getPrivateBalance_instance
    by blast
  moreover have "card (property_names [(''base_units'', 1000000), (''lamports'', 1000000)]) \<noteq> 1"
    using t [THEN conjunct2] getBalanceFromUtxosSPL_sum_typed getPrivateBalanceSPL_instance
    by blast
  ultimately show ?thesis
    using getBalanceFromUtxos_sum_typed getBalanceFromUtxosSPL_sum_typed
      getPrivateBalance_instance getPrivateBalanceSPL_instance
    by simp
qed

section \<open>Deposits with a fee\<close>

text \<open>
  C4. When the constructor of \<open>PublicKey\<close> makes the key \<open>k\<close> of the string \<open>s\<close>, a
  deposit with fee whose recipient is given as \<open>s\<close> and the same deposit whose recipient
  is given as \<open>k\<close> are the same run: the same outcome, the same instance and the same
  world afterwards, for every inner deposit function, which therefore is called with the
  same arguments. This holds for \<open>depositV2\<close> and for \<open>depositSPLV2\<close>.
\<close>

theorem feeRecipient_string_or_key:
  "npk s = Inr k \<Longrightarrow>
     PrivacyCashV2_depositV2 lg npk gi dep2 t f (AsString s) r this w =
       PrivacyCashV2_depositV2 lg npk gi dep2 t f (AsPublicKey k) r this w
     \<and> PrivacyCashV2_depositSPLV2 lg usdc npk gi deps2 t f (AsString s) m r this w =
         PrivacyCashV2_depositSPLV2 lg usdc npk gi deps2 t f (AsPublicKey k) m r this w"
  by (simp add: PrivacyCashV2_depositV2_def PrivacyCashV2_depositSPLV2_def Let_def
      split: prod.splits sum.splits)

text \<open>
  The address of the fee recipient of utils/constants and the key it decodes to.
\<close>

theorem feeRecipient_string_or_key_witness:
  "new_PublicKey FEE_RECIPIENT_address = Inr FEE_RECIPIENT
   \<and> PrivacyCashV2_depositV2 constructor_logger new_PublicKey getInstance_ready
         (depositV2 toBase58 (submit_accepted (\<lambda>p. toBase58 (DepositV2Params.publicKey p))))
         1000000 20000 (AsString FEE_RECIPIENT_address) None idle_client empty_world =
       PrivacyCashV2_depositV2 constructor_logger new_PublicKey getInstance_ready
         (depositV2 toBase58 (submit_accepted (\<lambda>p. toBase58 (DepositV2Params.publicKey p))))
         1000000 20000 (AsPublicKey FEE_RECIPIENT) None idle_client empty_world
   \<and> PrivacyCashV2_depositSPLV2 constructor_logger USDC_MINT new_PublicKey getInstance_ready
         (depositSPLV2 toBase58
            (submit_accepted (\<lambda>p. toBase58 (DepositSPLV2Params.publicKey p))))
         1000000 20000 (AsString FEE_RECIPIENT_address) None None idle_client empty_world =
       PrivacyCashV2_depositSPLV2 constructor_logger USDC_MINT new_PublicKey getInstance_ready
         (depositSPLV2 toBase58
            (submit_accepted (\<lambda>p. toBase58 (DepositSPLV2Params.publicKey p))))
         1000000 20000 (AsPublicKey FEE_RECIPIENT) None None idle_client empty_world"
  using feeRecipient_string_or_key
          [where npk = new_PublicKey and s = FEE_RECIPIENT_address and k = FEE_RECIPIENT]
        new_PublicKey_FEE_RECIPIENT
  by simp

text \<open>
  What the inner function receives: once the logger has returned and
  \<open>WasmFactory.getInstance\<close> has fulfilled, the outcome is that of the inner function
  called with the key \<open>k\<close> as fee recipient, whether the recipient was given as the
  string or as the key.
\<close>

lemma feeRecipient_reaches_inner:
  assumes "npk s = Inr k"
    and "lg ''info'' ''start depositing with fee transfer'' (status this) = Inr st"
    and "gi () w = (Inr lw, w1)"
    and "fr = AsString s \<or> fr = AsPublicKey k"
  shows "fst (PrivacyCashV2_depositV2 lg npk gi dep2 t f fr r this w) =
           fst (dep2 \<lparr>DepositV2Params.lightWasm = lw, DepositV2Params.totalLamports = t,
                      DepositV2Params.feeLamports = f, DepositV2Params.feeRecipient = k,
                      DepositV2Params.publicKey = publicKey this,
                      DepositV2Params.referrer = r\<rparr> w1)"
  using assms
  by (auto simp: PrivacyCashV2_depositV2_def logger_info_def Let_def split: prod.splits)

lemma feeRecipient_reaches_inner_SPL:
  assumes "npk s = Inr k"
    and "lg ''info'' ''start depositing SPL token with fee transfer'' (status this) = Inr st"
    and "gi () w = (Inr lw, w1)"
    and "fr = AsString s \<or> fr = AsPublicKey k"
  shows "fst (PrivacyCashV2_depositSPLV2 lg usdc npk gi deps2 t f fr m r this w) =
           fst (deps2 \<lparr>DepositSPLV2Params.lightWasm = lw,
                       DepositSPLV2Params.totalBaseUnits = t,
                       DepositSPLV2Params.feeBaseUnits = f,
                       DepositSPLV2Params.feeRecipient = k,
                       DepositSPLV2Params.publicKey = publicKey this,
                       DepositSPLV2Params.mintAddress = (case m of None \<Rightarrow> usdc | Some x \<Rightarrow> x),
                       DepositSPLV2Params.referrer = r\<rparr> w1)"
  using assms
  by (auto simp: PrivacyCashV2_depositSPLV2_def logger_info_def Let_def split: prod.splits)

text \<open>
  The facade hands the total and the fee on as they are and returns what the inner function
  returns; with the inner functions as the spec describes them, a fulfilled deposit with fee
  reports the total less the fee and the fee.
\<close>

lemma depositV2_facade_result:
  "fst (PrivacyCashV2_depositV2 lg npk gi (depositV2 addr sub) t f fr r this w) = Inr res
   \<Longrightarrow> DepositV2Result.depositLamports res = t - f \<and> DepositV2Result.feeLamports res = f"
  by (auto simp: PrivacyCashV2_depositV2_def depositV2_def Let_def
      split: prod.splits sum.splits address_arg.splits)

lemma depositSPLV2_facade_result:
  "fst (PrivacyCashV2_depositSPLV2 lg usdc npk gi (depositSPLV2 addr sub) t f fr m r this w) = Inr res
   \<Longrightarrow> DepositSPLV2Result.depositBaseUnits res = t - f
       \<and> DepositSPLV2Result.feeBaseUnits res = f"
  by (auto simp: PrivacyCashV2_depositSPLV2_def depositSPLV2_def Let_def
      split: prod.splits sum.splits address_arg.splits)

lemma depositV2_fulfils:
  assumes "lg ''info'' ''start depositing with fee transfer'' (status this) = Inr st"
    and "gi () w = (Inr lw, w1)"
    and "(case fr of AsString s \<Rightarrow> npk s | AsPublicKey k \<Rightarrow> Inr k) = Inr k'"
    and "sub \<lparr>DepositV2Params.lightWasm = lw, DepositV2Params.totalLamports = T,
              DepositV2Params.feeLamports = F, DepositV2Params.feeRecipient = k',
              DepositV2Params.publicKey = publicKey this,
              DepositV2Params.referrer = r\<rparr> w1 = (Inr sig, w2)"
  shows "fst (PrivacyCashV2_depositV2 lg npk gi (depositV2 addr sub) T F fr r this w) =
           Inr \<lparr>DepositV2Result.tx = sig, DepositV2Result.depositLamports = T - F,
                 DepositV2Result.feeLamports = F, DepositV2Result.feeRecipient = addr k'\<rparr>"
  using assms
  by (simp add: PrivacyCashV2_depositV2_def depositV2_def logger_info_def Let_def)

lemma depositSPLV2_fulfils:
  assumes "lg ''info'' ''start depositing SPL token with fee transfer'' (status this) = Inr st"
    and "gi () w = (Inr lw, w1)"
    and "(case fr of AsString s \<Rightarrow> npk s | AsPublicKey k \<Rightarrow> Inr k) = Inr k'"
    and "sub \<lparr>DepositSPLV2Params.lightWasm = lw, DepositSPLV2Params.totalBaseUnits = T,
              DepositSPLV2Params.feeBaseUnits = F, DepositSPLV2Params.feeRecipient = k',
              DepositSPLV2Params.publicKey = publicKey this,
              DepositSPLV2Params.mintAddress = (case m of None \<Rightarrow> usdc | Some x \<Rightarrow> x),
              DepositSPLV2Params.referrer = r\<rparr> w1 = (Inr sig, w2)"
  shows "fst (PrivacyCashV2_depositSPLV2 lg usdc npk gi (depositSPLV2 addr sub) T F fr m r this w) =
           Inr \<lparr>DepositSPLV2Result.tx = sig, DepositSPLV2Result.depositBaseUnits = T - F,
                 DepositSPLV2Result.feeBaseUnits = F,
                 DepositSPLV2Result.feeRecipient = addr k'\<rparr>"
  using assms
  by (simp add: PrivacyCashV2_depositSPLV2_def depositSPLV2_def logger_info_def Let_def)

lemma depositV2_instance:
  "fst (PrivacyCashV2_depositV2 constructor_logger new_PublicKey getInstance_ready
         (depositV2 toBase58 (submit_accepted (\<lambda>p. toBase58 (DepositV2Params.publicKey p))))
         1000000 20000 (AsString FEE_RECIPIENT_address) None idle_client empty_world)
   = Inr \<lparr>DepositV2Result.tx = ''signature'', DepositV2Result.depositLamports = 980000,
          DepositV2Result.feeLamports = 20000,
          DepositV2Result.feeRecipient = FEE_RECIPIENT_address\<rparr>"
  by (simp add: PrivacyCashV2_depositV2_def depositV2_def getInstance_ready_def
      submit_accepted_def new_PublicKey_FEE_RECIPIENT toBase58_FEE_RECIPIENT Let_def
      logger_info_def constructor_logger_def)

lemma depositSPLV2_instance:
  "fst (PrivacyCashV2_depositSPLV2 constructor_logger USDC_MINT new_PublicKey getInstance_ready
         (depositSPLV2 toBase58
            (submit_accepted (\<lambda>p. toBase58 (DepositSPLV2Params.publicKey p))))
         1000000 20000 (AsPublicKey FEE_RECIPIENT) None None idle_client empty_world)
   = Inr \<lparr>DepositSPLV2Result.tx = ''signature'', DepositSPLV2Result.depositBaseUnits = 980000,
          DepositSPLV2Result.feeBaseUnits = 20000,
          DepositSPLV2Result.feeRecipient = FEE_RECIPIENT_address\<rparr>"
  by (simp add: PrivacyCashV2_depositSPLV2_def depositSPLV2_def getInstance_ready_def
      submit_accepted_def toBase58_FEE_RECIPIENT Let_def logger_info_def
      constructor_logger_def)

text \<open>
  C1. A call of \<open>depositV2\<close> with total \<open>T\<close> and fee \<open>F\<close> that fulfils returns
  \<open>depositLamports = T - F\<close> and \<open>feeLamports = F\<close>; a call of \<open>depositSPLV2\<close> that
  fulfils returns \<open>depositBaseUnits = T - F\<close> and \<open>feeBaseUnits = F\<close>.
\<close>

theorem deposit_with_fee_amounts:
  "(fst (PrivacyCashV2_depositV2 lg npk gi (depositV2 addr sub) T F fr r this w) = Inr res
      \<longrightarrow> DepositV2Result.depositLamports res = T - F \<and> DepositV2Result.feeLamports res = F)
   \<and> (fst (PrivacyCashV2_depositSPLV2 lg usdc npk gi (depositSPLV2 addr subs) T F fr m r this w)
         = Inr ress
      \<longrightarrow> DepositSPLV2Result.depositBaseUnits ress = T - F
          \<and> DepositSPLV2Result.feeBaseUnits ress = F)"
  by (auto dest: depositV2_facade_result depositSPLV2_facade_result)

text \<open>
  A total of 1,000,000 with a fee of 20,000: the call fulfils, the deposit is 980,000 and
  the fee 20,000, in lamports and in base units.
\<close>

theorem deposit_with_fee_amounts_witness:
  "fst (PrivacyCashV2_depositV2 constructor_logger new_PublicKey getInstance_ready
         (depositV2 toBase58 (submit_accepted (\<lambda>p. toBase58 (DepositV2Params.publicKey p))))
         1000000 20000 (AsString FEE_RECIPIENT_address) None idle_client empty_world)
     = Inr \<lparr>DepositV2Result.tx = ''signature'', DepositV2Result.depositLamports = 980000,
            DepositV2Result.feeLamports = 20000,
            DepositV2Result.feeRecipient = FEE_RECIPIENT_address\<rparr>
   \<and> fst (PrivacyCashV2_depositSPLV2 constructor_logger USDC_MINT new_PublicKey getInstance_ready
         (depositSPLV2 toBase58
            (submit_accepted (\<lambda>p. toBase58 (DepositSPLV2Params.publicKey p))))
         1000000 20000 (AsPublicKey FEE_RECIPIENT) None None idle_client empty_world)
     = Inr \<lparr>DepositSPLV2Result.tx = ''signature'',
            DepositSPLV2Result.depositBaseUnits = 980000,
            DepositSPLV2Result.feeBaseUnits = 20000,
            DepositSPLV2Result.feeRecipient = FEE_RECIPIENT_address\<rparr>
   \<and> DepositV2Result.depositLamports
        \<lparr>DepositV2Result.tx = ''signature'', DepositV2Result.depositLamports = 980000,
            DepositV2Result.feeLamports = 20000,
            DepositV2Result.feeRecipient = FEE_RECIPIENT_address\<rparr> = 1000000 - 20000"
proof -
  let ?R = "\<lparr>DepositV2Result.tx = ''signature'', DepositV2Result.depositLamports = 980000,
            DepositV2Result.feeLamports = 20000,
            DepositV2Result.feeRecipient = FEE_RECIPIENT_address\<rparr>"
  have "DepositV2Result.depositLamports ?R = 1000000 - 20000
        \<and> DepositV2Result.feeLamports ?R = 20000"
    using deposit_with_fee_amounts
            [where npk = new_PublicKey and gi = getInstance_ready and addr = toBase58
               and sub = "submit_accepted (\<lambda>p. toBase58 (DepositV2Params.publicKey p))"
               and T = 1000000 and F = 20000 and fr = "AsString FEE_RECIPIENT_address"
               and r = None and this = idle_client and w = empty_world and res = ?R]
          depositV2_instance
    by blast
  then show ?thesis
    using depositV2_instance depositSPLV2_instance by simp
qed

section \<open>The owner of a PrivacyCash client\<close>




text \<open>
  Whatever the derivation of public keys, \<open>Keypair.fromSecretKey\<close> refuses every key
  of 32 bytes, and so does the constructor, although its length check lets 32 bytes pass.
\<close>

lemma key_of_32_bytes_refused:
  "length b = 32 \<Longrightarrow>
     PrivacyCash_constructor dec (Keypair_fromSecretKey getPublicKey) (OwnerBytes b)
       = Inl owner_error"
  by (simp add: PrivacyCash_constructor_def keypair_of_keyArray_def Keypair_fromSecretKey_def)



section \<open>The recipient of a withdrawal\<close>

lemma withdraw_to:
  assumes "lg ''info'' ''start withdrawing'' (status this) = Inr st"
    and "gi () w = (Inr lw, w1)"
    and "(case ra of None \<Rightarrow> Inr (publicKey this)
          | Some s \<Rightarrow> if s = [] then Inr (publicKey this) else npk s) = Inr k"
  shows "fst (PrivacyCashV2_withdraw lg npk gi wd a ra this w) =
           fst (wd \<lparr>WithdrawParams.lightWasm = lw, WithdrawParams.amount_in_lamports = a,
                    WithdrawParams.publicKey = publicKey this,
                    WithdrawParams.recipient = k\<rparr> w1)"
  using assms
  by (cases ra)
     (auto simp: PrivacyCashV2_withdraw_def logger_info_def Let_def
        split: prod.splits if_splits)

lemma withdrawSPL_to:
  assumes "lg ''info'' ''start withdrawing SPL token'' (status this) = Inr sts"
    and "gi () w = (Inr lw, w1)"
    and "(case ra of None \<Rightarrow> Inr (publicKey this)
          | Some s \<Rightarrow> if s = [] then Inr (publicKey this) else npk s) = Inr k"
  shows "fst (PrivacyCashV2_withdrawSPL lg usdc npk gi wds a m ra this w) =
           fst (wds \<lparr>WithdrawSPLParams.lightWasm = lw, WithdrawSPLParams.base_units = a,
                     WithdrawSPLParams.publicKey = publicKey this,
                     WithdrawSPLParams.mintAddress = (case m of None \<Rightarrow> usdc | Some x \<Rightarrow> x),
                     WithdrawSPLParams.recipient = k\<rparr> w1)"
  using assms
  by (cases ra)
     (auto simp: PrivacyCashV2_withdrawSPL_def logger_info_def Let_def
        split: prod.splits if_splits)

lemma v1_withdraw_to:
  assumes "lg ''info'' ''start withdrawing'' (PrivacyCash.status old) = Inr st1"
    and "gi () w = (Inr lw, w1)"
    and "(case ra of None \<Rightarrow> Inr (PrivacyCash.publicKey old)
          | Some s \<Rightarrow> if s = [] then Inr (PrivacyCash.publicKey old) else npk s) = Inr k"
  shows "fst (PrivacyCash_withdraw lg npk gi wd a ra old w) =
           fst (wd \<lparr>WithdrawParams.lightWasm = lw, WithdrawParams.amount_in_lamports = a,
                    WithdrawParams.publicKey = PrivacyCash.publicKey old,
                    WithdrawParams.recipient = k\<rparr> w1)"
  using assms
  by (cases ra)
     (auto simp: PrivacyCash_withdraw_def Let_def split: prod.splits sum.splits if_splits)

lemma withdraw_rejects_undecodable:
  assumes "lg ''info'' ''start withdrawing'' (status this) = Inr st"
    and "lg ''info'' ''start withdrawing SPL token'' (status this) = Inr sts"
    and "lg ''info'' ''start withdrawing'' (PrivacyCash.status old) = Inr st1"
    and "gi () w = (Inr lw, w1)" and "s \<noteq> []" and "npk s = Inl e"
  shows "fst (PrivacyCashV2_withdraw lg npk gi wd a (Some s) this w) = Inl e"
    and "fst (PrivacyCashV2_withdrawSPL lg usdc npk gi wds a m (Some s) this w) = Inl e"
    and "fst (PrivacyCash_withdraw lg npk gi wd a (Some s) old w) = Inl e"
  using assms
  by (simp_all add: PrivacyCashV2_withdraw_def PrivacyCashV2_withdrawSPL_def
      PrivacyCash_withdraw_def logger_info_def Let_def)

text \<open>
  C10, as the code has it. Once the logger has returned and \<open>WasmFactory.getInstance\<close>
  has fulfilled: when
  \<open>recipientAddress\<close> is omitted or is the empty string, the outcome of \<open>withdraw\<close>
  (of both classes) and of \<open>withdrawSPL\<close> is the outcome of the inner operation called
  with the client's own public key as recipient; when \<open>recipientAddress\<close> is a non-empty
  string of which the constructor of \<open>PublicKey\<close> makes the key \<open>k\<close>, it is the
  outcome of the inner operation called with \<open>k\<close> as recipient, and when the
  constructor throws for the string, the call rejects with what it throws.
\<close>

theorem withdraw_recipient:
  "lg ''info'' ''start withdrawing'' (status this) = Inr st
   \<and> lg ''info'' ''start withdrawing SPL token'' (status this) = Inr sts
   \<and> lg ''info'' ''start withdrawing'' (PrivacyCash.status old) = Inr st1
   \<and> gi () w = (Inr lw, w1) \<longrightarrow>
     ((ra = None \<or> ra = Some []) \<longrightarrow>
        fst (PrivacyCashV2_withdraw lg npk gi wd a ra this w) =
          fst (wd \<lparr>WithdrawParams.lightWasm = lw, WithdrawParams.amount_in_lamports = a,
                   WithdrawParams.publicKey = publicKey this,
                   WithdrawParams.recipient = publicKey this\<rparr> w1)
        \<and> fst (PrivacyCashV2_withdrawSPL lg usdc npk gi wds a m ra this w) =
            fst (wds \<lparr>WithdrawSPLParams.lightWasm = lw, WithdrawSPLParams.base_units = a,
                      WithdrawSPLParams.publicKey = publicKey this,
                      WithdrawSPLParams.mintAddress = (case m of None \<Rightarrow> usdc | Some x \<Rightarrow> x),
                      WithdrawSPLParams.recipient = publicKey this\<rparr> w1)
        \<and> fst (PrivacyCash_withdraw lg npk gi wd a ra old w) =
            fst (wd \<lparr>WithdrawParams.lightWasm = lw, WithdrawParams.amount_in_lamports = a,
                     WithdrawParams.publicKey = PrivacyCash.publicKey old,
                     WithdrawParams.recipient = PrivacyCash.publicKey old\<rparr> w1))
     \<and> (ra = Some s \<and> s \<noteq> [] \<and> npk s = Inr k \<longrightarrow>
        fst (PrivacyCashV2_withdraw lg npk gi wd a ra this w) =
          fst (wd \<lparr>WithdrawParams.lightWasm = lw, WithdrawParams.amount_in_lamports = a,
                   WithdrawParams.publicKey = publicKey this,
                   WithdrawParams.recipient = k\<rparr> w1)
        \<and> fst (PrivacyCashV2_withdrawSPL lg usdc npk gi wds a m ra this w) =
            fst (wds \<lparr>WithdrawSPLParams.lightWasm = lw, WithdrawSPLParams.base_units = a,
                      WithdrawSPLParams.publicKey = publicKey this,
                      WithdrawSPLParams.mintAddress = (case m of None \<Rightarrow> usdc | Some x \<Rightarrow> x),
                      WithdrawSPLParams.recipient = k\<rparr> w1)
        \<and> fst (PrivacyCash_withdraw lg npk gi wd a ra old w) =
            fst (wd \<lparr>WithdrawParams.lightWasm = lw, WithdrawParams.amount_in_lamports = a,
                     WithdrawParams.publicKey = PrivacyCash.publicKey old,
                     WithdrawParams.recipient = k\<rparr> w1))
     \<and> (ra = Some s \<and> s \<noteq> [] \<and> npk s = Inl e \<longrightarrow>
        fst (PrivacyCashV2_withdraw lg npk gi wd a ra this w) = Inl e
        \<and> fst (PrivacyCashV2_withdrawSPL lg usdc npk gi wds a m ra this w) = Inl e
        \<and> fst (PrivacyCash_withdraw lg npk gi wd a ra old w) = Inl e)"
proof (intro impI conjI)
  assume pre: "lg ''info'' ''start withdrawing'' (status this) = Inr st
   \<and> lg ''info'' ''start withdrawing SPL token'' (status this) = Inr sts
   \<and> lg ''info'' ''start withdrawing'' (PrivacyCash.status old) = Inr st1
   \<and> gi () w = (Inr lw, w1)"
  then have l: "lg ''info'' ''start withdrawing'' (status this) = Inr st"
    and ls: "lg ''info'' ''start withdrawing SPL token'' (status this) = Inr sts"
    and l1: "lg ''info'' ''start withdrawing'' (PrivacyCash.status old) = Inr st1"
    and gi: "gi () w = (Inr lw, w1)"
    by simp_all
  assume ra: "ra = None \<or> ra = Some []"
  from ra have own: "(case ra of None \<Rightarrow> Inr (publicKey this)
          | Some s \<Rightarrow> if s = [] then Inr (publicKey this) else npk s) = Inr (publicKey this)"
    by auto
  from ra have own1: "(case ra of None \<Rightarrow> Inr (PrivacyCash.publicKey old)
          | Some s \<Rightarrow> if s = [] then Inr (PrivacyCash.publicKey old) else npk s)
        = Inr (PrivacyCash.publicKey old)"
    by auto
  show "fst (PrivacyCashV2_withdraw lg npk gi wd a ra this w) =
          fst (wd \<lparr>WithdrawParams.lightWasm = lw, WithdrawParams.amount_in_lamports = a,
                   WithdrawParams.publicKey = publicKey this,
                   WithdrawParams.recipient = publicKey this\<rparr> w1)"
    by (rule withdraw_to, rule l, rule gi, rule own)
  show "fst (PrivacyCashV2_withdrawSPL lg usdc npk gi wds a m ra this w) =
            fst (wds \<lparr>WithdrawSPLParams.lightWasm = lw, WithdrawSPLParams.base_units = a,
                      WithdrawSPLParams.publicKey = publicKey this,
                      WithdrawSPLParams.mintAddress = (case m of None \<Rightarrow> usdc | Some x \<Rightarrow> x),
                      WithdrawSPLParams.recipient = publicKey this\<rparr> w1)"
    by (rule withdrawSPL_to, rule ls, rule gi, rule own)
  show "fst (PrivacyCash_withdraw lg npk gi wd a ra old w) =
            fst (wd \<lparr>WithdrawParams.lightWasm = lw, WithdrawParams.amount_in_lamports = a,
                     WithdrawParams.publicKey = PrivacyCash.publicKey old,
                     WithdrawParams.recipient = PrivacyCash.publicKey old\<rparr> w1)"
    by (rule v1_withdraw_to, rule l1, rule gi, rule own1)
next
  assume pre: "lg ''info'' ''start withdrawing'' (status this) = Inr st
   \<and> lg ''info'' ''start withdrawing SPL token'' (status this) = Inr sts
   \<and> lg ''info'' ''start withdrawing'' (PrivacyCash.status old) = Inr st1
   \<and> gi () w = (Inr lw, w1)"
  then have l: "lg ''info'' ''start withdrawing'' (status this) = Inr st"
    and ls: "lg ''info'' ''start withdrawing SPL token'' (status this) = Inr sts"
    and l1: "lg ''info'' ''start withdrawing'' (PrivacyCash.status old) = Inr st1"
    and gi: "gi () w = (Inr lw, w1)"
    by simp_all
  assume ra: "ra = Some s \<and> s \<noteq> [] \<and> npk s = Inr k"
  from ra have to: "(case ra of None \<Rightarrow> Inr (publicKey this)
          | Some s \<Rightarrow> if s = [] then Inr (publicKey this) else npk s) = Inr k"
    by auto
  from ra have to1: "(case ra of None \<Rightarrow> Inr (PrivacyCash.publicKey old)
          | Some s \<Rightarrow> if s = [] then Inr (PrivacyCash.publicKey old) else npk s) = Inr k"
    by auto
  show "fst (PrivacyCashV2_withdraw lg npk gi wd a ra this w) =
          fst (wd \<lparr>WithdrawParams.lightWasm = lw, WithdrawParams.amount_in_lamports = a,
                   WithdrawParams.publicKey = publicKey this,
                   WithdrawParams.recipient = k\<rparr> w1)"
    by (rule withdraw_to, rule l, rule gi, rule to)
  show "fst (PrivacyCashV2_withdrawSPL lg usdc npk gi wds a m ra this w) =
            fst (wds \<lparr>WithdrawSPLParams.lightWasm = lw, WithdrawSPLParams.base_units = a,
                      WithdrawSPLParams.publicKey = publicKey this,
                      WithdrawSPLParams.mintAddress = (case m of None \<Rightarrow> usdc | Some x \<Rightarrow> x),
                      WithdrawSPLParams.recipient = k\<rparr> w1)"
    by (rule withdrawSPL_to, rule ls, rule gi, rule to)
  show "fst (PrivacyCash_withdraw lg npk gi wd a ra old w) =
            fst (wd \<lparr>WithdrawParams.lightWasm = lw, WithdrawParams.amount_in_lamports = a,
                     WithdrawParams.publicKey = PrivacyCash.publicKey old,
                     WithdrawParams.recipient = k\<rparr> w1)"
    by (rule v1_withdraw_to, rule l1, rule gi, rule to1)
next
  assume pre: "lg ''info'' ''start withdrawing'' (status this) = Inr st
   \<and> lg ''info'' ''start withdrawing SPL token'' (status this) = Inr sts
   \<and> lg ''info'' ''start withdrawing'' (PrivacyCash.status old) = Inr st1
   \<and> gi () w = (Inr lw, w1)"
  then have l: "lg ''info'' ''start withdrawing'' (status this) = Inr st"
    and ls: "lg ''info'' ''start withdrawing SPL token'' (status this) = Inr sts"
    and l1: "lg ''info'' ''start withdrawing'' (PrivacyCash.status old) = Inr st1"
    and gi: "gi () w = (Inr lw, w1)"
    by simp_all
  assume ra: "ra = Some s \<and> s \<noteq> [] \<and> npk s = Inl e"
  from ra have s: "s \<noteq> []" and e: "npk s = Inl e" and r: "ra = Some s"
    by simp_all
  show "fst (PrivacyCashV2_withdraw lg npk gi wd a ra this w) = Inl e"
    unfolding r
    by (rule withdraw_rejects_undecodable(1), rule l, rule ls, rule l1, rule gi, rule s, rule e)
  show "fst (PrivacyCashV2_withdrawSPL lg usdc npk gi wds a m ra this w) = Inl e"
    unfolding r
    by (rule withdraw_rejects_undecodable(2), rule l, rule ls, rule l1, rule gi, rule s, rule e)
  show "fst (PrivacyCash_withdraw lg npk gi wd a ra old w) = Inl e"
    unfolding r
    by (rule withdraw_rejects_undecodable(3), rule l, rule ls, rule l1, rule gi, rule s, rule e)
qed

text \<open>
  C10, as the claim states it, fails for a recipient address that is supplied and empty:
  no public key decodes from the empty string, and the withdrawal goes through, to the
  client's own address.
\<close>

theorem empty_recipientAddress_counterexample:
  "new_PublicKey [] = Inl (Error ''Invalid public key input'')
   \<and> PrivacyCashV2_withdraw constructor_logger new_PublicKey getInstance_ready
        withdraw_accepted 1000 (Some []) idle_client empty_world
     = (Inr \<lparr>WithdrawResult.isPartial = False, WithdrawResult.tx = ''signature'',
             WithdrawResult.recipient = ''11111111111111111111111111111112'',
             WithdrawResult.amount_in_lamports = 1000, WithdrawResult.fee_in_lamports = 0\<rparr>,
        idle_client\<lparr>status := ''start withdrawing''\<rparr>,
        empty_world\<lparr>outside := [''11111111111111111111111111111112'']\<rparr>)
   \<and> toBase58 (publicKey idle_client) = ''11111111111111111111111111111112''"
  by (simp add: new_PublicKey_empty PrivacyCashV2_withdraw_def getInstance_ready_def
      withdraw_accepted_def logger_info_def constructor_logger_def Let_def idle_client_def
      empty_world_def toBase58_owner_key)

text \<open>
  A withdrawal without a recipient goes to the client's address, a withdrawal with the
  address of the fee recipient goes to that address, and a withdrawal to \<open>0\<close>, which is
  no base58 string, rejects.
\<close>

lemma constructor_logger_info: "constructor_logger ''info'' message st = Inr message"
  by (simp add: constructor_logger_def)

theorem withdraw_recipient_witness:
  "getInstance_ready () empty_world = (Inr LightWasm, empty_world)
   \<and> new_PublicKey FEE_RECIPIENT_address = Inr FEE_RECIPIENT
   \<and> fst (PrivacyCashV2_withdraw constructor_logger new_PublicKey getInstance_ready
            withdraw_accepted 1000 None idle_client empty_world)
     = Inr \<lparr>WithdrawResult.isPartial = False, WithdrawResult.tx = ''signature'',
            WithdrawResult.recipient = ''11111111111111111111111111111112'',
            WithdrawResult.amount_in_lamports = 1000, WithdrawResult.fee_in_lamports = 0\<rparr>
   \<and> fst (PrivacyCashV2_withdraw constructor_logger new_PublicKey getInstance_ready
            withdraw_accepted 1000 (Some FEE_RECIPIENT_address) idle_client empty_world)
     = Inr \<lparr>WithdrawResult.isPartial = False, WithdrawResult.tx = ''signature'',
            WithdrawResult.recipient = FEE_RECIPIENT_address,
            WithdrawResult.amount_in_lamports = 1000, WithdrawResult.fee_in_lamports = 0\<rparr>
   \<and> new_PublicKey ''0'' = Inl (Error ''Non-base58 character'')
   \<and> fst (PrivacyCashV2_withdraw constructor_logger new_PublicKey getInstance_ready
            withdraw_accepted 1000 (Some ''0'') idle_client empty_world)
     = Inl (Error ''Non-base58 character'')"
proof -
  have g: "getInstance_ready () empty_world = (Inr LightWasm, empty_world)"
    by (simp add: getInstance_ready_def)
  have n: "FEE_RECIPIENT_address \<noteq> []"
    by (simp add: FEE_RECIPIENT_address_def)
  have "fst (PrivacyCashV2_withdraw constructor_logger new_PublicKey getInstance_ready
            withdraw_accepted 1000 None idle_client empty_world)
        = fst (withdraw_accepted
            \<lparr>WithdrawParams.lightWasm = LightWasm, WithdrawParams.amount_in_lamports = 1000,
             WithdrawParams.publicKey = publicKey idle_client,
             WithdrawParams.recipient = publicKey idle_client\<rparr> empty_world)"
    using withdraw_recipient
            [where gi = getInstance_ready and w = empty_world and lw = LightWasm
               and ?w1.0 = empty_world and ra = None and npk = new_PublicKey
               and wd = withdraw_accepted and a = 1000 and this = idle_client
               and lg = constructor_logger and st = "''start withdrawing''"
               and sts = "''start withdrawing SPL token''"
               and ?st1.0 = "''start withdrawing''"]
          constructor_logger_info g
    by blast
  moreover have "fst (PrivacyCashV2_withdraw constructor_logger new_PublicKey getInstance_ready
            withdraw_accepted 1000 (Some FEE_RECIPIENT_address) idle_client empty_world)
        = fst (withdraw_accepted
            \<lparr>WithdrawParams.lightWasm = LightWasm, WithdrawParams.amount_in_lamports = 1000,
             WithdrawParams.publicKey = publicKey idle_client,
             WithdrawParams.recipient = FEE_RECIPIENT\<rparr> empty_world)"
    using withdraw_recipient
            [where gi = getInstance_ready and w = empty_world and lw = LightWasm
               and ?w1.0 = empty_world and ra = "Some FEE_RECIPIENT_address"
               and s = FEE_RECIPIENT_address and k = FEE_RECIPIENT and npk = new_PublicKey
               and wd = withdraw_accepted and a = 1000 and this = idle_client
               and lg = constructor_logger and st = "''start withdrawing''"
               and sts = "''start withdrawing SPL token''"
               and ?st1.0 = "''start withdrawing''"]
          constructor_logger_info
          g n new_PublicKey_FEE_RECIPIENT
    by blast
  moreover have "fst (PrivacyCashV2_withdraw constructor_logger new_PublicKey getInstance_ready
            withdraw_accepted 1000 (Some ''0'') idle_client empty_world)
        = Inl (Error ''Non-base58 character'')"
    using withdraw_recipient
            [where gi = getInstance_ready and w = empty_world and lw = LightWasm
               and ?w1.0 = empty_world and ra = "Some ''0''" and s = "''0''"
               and e = "Error ''Non-base58 character''" and npk = new_PublicKey
               and wd = withdraw_accepted and a = 1000 and this = idle_client
               and lg = constructor_logger and st = "''start withdrawing''"
               and sts = "''start withdrawing SPL token''"
               and ?st1.0 = "''start withdrawing''"]
          constructor_logger_info
          g new_PublicKey_zero
    by blast
  ultimately show ?thesis
    using g new_PublicKey_FEE_RECIPIENT new_PublicKey_zero
    by (simp add: withdraw_accepted_def idle_client_def toBase58_owner_key
        toBase58_FEE_RECIPIENT)
qed

end
